theory Spec2Isabelle
  imports Complex_Main
begin

section \<open>Values shared by the three modules\<close>

text \<open>
  Python floats are modelled as exact reals and Python ints as \<open>int\<close>. An exception that
  leaves a function is the left summand of its result.

  What a function outside these three modules raises: \<open>Error\<close>, an instance of
  \<open>Exception\<close> with its message, or \<open>Interrupt\<close>, a \<open>BaseException\<close> that is
  not an \<open>Exception\<close> (\<open>KeyboardInterrupt\<close>, \<open>SystemExit\<close>), which
  \<open>except Exception\<close> lets through.
\<close>

datatype raised = Error string | Interrupt

text \<open>
  How a function of these modules ends when it does not return its value.

  \<^item> \<open>ValueError\<close>: numpy cannot broadcast or multiply arrays of these shapes, or
    \<open>raise ValueError\<close>.
  \<^item> \<open>TypeError\<close>: a call whose arguments do not bind to the callee's parameters.
  \<^item> \<open>IndexError\<close>: a tuple read past its end.
  \<^item> \<open>ZeroDivisionError\<close>: \<open>/\<close> on Python numbers with divisor zero.
  \<^item> \<open>Raised\<close>: what a function outside these modules raised, passing through.
  \<^item> \<open>NonFinite\<close>: not an exception. numpy divides by zero without raising and
    returns an array holding \<open>inf\<close> or \<open>nan\<close>; exact arithmetic has no such
    values, so the model reports a result with such an entry as this outcome.
\<close>

datatype py_error =
  ValueError | TypeError | IndexError | ZeroDivisionError | Raised raised | NonFinite

type_synonym vec3 = "real \<times> real \<times> real"
type_synonym vec4 = "real \<times> real \<times> real \<times> real"

text \<open>A 3x3 array and a 4x4 array, as their rows.\<close>

type_synonym mat3 = "vec3 \<times> vec3 \<times> vec3"
type_synonym affine = "vec4 \<times> vec4 \<times> vec4 \<times> vec4"

text \<open>A streamline is the sequence of its points; \<open>os.environ\<close> maps names to values.\<close>

type_synonym streamline = "vec3 list"
type_synonym environ = "string \<Rightarrow> string option"

section \<open>transform.py\<close>

text \<open>
  \<open>new_voxel_size\<close> is a number (\<open>isinstance(new_voxel_size, (int, float))\<close>) or a
  tuple of numbers.
\<close>

datatype voxel_size = Scalar real | Tuple "real list"

text \<open>\<open>old_affine[:3, :3]\<close>\<close>

fun linear_part :: "affine \<Rightarrow> mat3" where
  "linear_part ((a00, a01, a02, a03), (a10, a11, a12, a13), (a20, a21, a22, a23), r3) =
     ((a00, a01, a02), (a10, a11, a12), (a20, a21, a22))"

text \<open>\<open>np.sqrt(np.sum(R**2, axis=0))\<close>: the norm of each column.\<close>

fun col_norms :: "mat3 \<Rightarrow> vec3" where
  "col_norms ((a00, a01, a02), (a10, a11, a12), (a20, a21, a22)) =
     (sqrt (a00\<^sup>2 + a10\<^sup>2 + a20\<^sup>2),
      sqrt (a01\<^sup>2 + a11\<^sup>2 + a21\<^sup>2),
      sqrt (a02\<^sup>2 + a12\<^sup>2 + a22\<^sup>2))"

text \<open>
  An array of shape \<open>(n,)\<close> met by one of shape \<open>(3,)\<close> in an elementwise operation:
  numpy stretches length 1, takes length 3 as it is and raises ValueError otherwise.
\<close>

fun broadcast3 :: "real list \<Rightarrow> py_error + vec3" where
  "broadcast3 [a] = Inr (a, a, a)"
| "broadcast3 [a, b, c] = Inr (a, b, c)"
| "broadcast3 xs = Inl ValueError"

text \<open>
  An array of shape \<open>(n,)\<close> as the right operand of \<open>@\<close> under a 3x3 matrix:
  the inner dimensions must agree, there is no stretching.
\<close>

fun exact3 :: "real list \<Rightarrow> py_error + vec3" where
  "exact3 [a, b, c] = Inr (a, b, c)"
| "exact3 xs = Inl ValueError"

text \<open>The same under a 4x4 matrix.\<close>

fun exact4 :: "real list \<Rightarrow> py_error + vec4" where
  "exact4 [a, b, c, d] = Inr (a, b, c, d)"
| "exact4 xs = Inl ValueError"

text \<open>
  Elementwise \<open>/\<close>. Where the divisor is zero the quotient is HOL's placeholder;
  \<open>has_zero\<close> tells the caller that numpy's quotient is \<open>inf\<close> or \<open>nan\<close> there.
\<close>

fun vdiv :: "vec3 \<Rightarrow> vec3 \<Rightarrow> vec3" where
  "vdiv (a, b, c) (x, y, z) = (a / x, b / y, c / z)"

fun has_zero :: "vec3 \<Rightarrow> bool" where
  "has_zero (x, y, z) = (x = 0 \<or> y = 0 \<or> z = 0)"

fun vsub :: "vec3 \<Rightarrow> vec3 \<Rightarrow> vec3" where
  "vsub (a, b, c) (x, y, z) = (a - x, b - y, c - z)"

text \<open>\<open>np.diag\<close>\<close>

fun diag :: "vec3 \<Rightarrow> mat3" where
  "diag (x, y, z) = ((x, 0, 0), (0, y, 0), (0, 0, z))"

fun dot3 :: "vec3 \<Rightarrow> vec3 \<Rightarrow> real" where
  "dot3 (a, b, c) (x, y, z) = a * x + b * y + c * z"

fun dot4 :: "vec4 \<Rightarrow> vec4 \<Rightarrow> real" where
  "dot4 (a, b, c, d) (x, y, z, w) = a * x + b * y + c * z + d * w"

fun transpose3 :: "mat3 \<Rightarrow> mat3" where
  "transpose3 ((a00, a01, a02), (a10, a11, a12), (a20, a21, a22)) =
     ((a00, a10, a20), (a01, a11, a21), (a02, a12, a22))"

text \<open>\<open>M @ v\<close> for a 3x3 and for a 4x4 matrix.\<close>

fun matvec3 :: "mat3 \<Rightarrow> vec3 \<Rightarrow> vec3" where
  "matvec3 (r0, r1, r2) v = (dot3 r0 v, dot3 r1 v, dot3 r2 v)"

fun matvec4 :: "affine \<Rightarrow> vec4 \<Rightarrow> vec4" where
  "matvec4 (r0, r1, r2, r3) v = (dot4 r0 v, dot4 r1 v, dot4 r2 v, dot4 r3 v)"

text \<open>\<open>M @ N\<close> for 3x3 matrices: row i of the product holds the dot products of row i with the columns of N.\<close>

fun matmul3 :: "mat3 \<Rightarrow> mat3 \<Rightarrow> mat3" where
  "matmul3 (r0, r1, r2) N =
     (case transpose3 N of (c0, c1, c2) \<Rightarrow>
        ((dot3 r0 c0, dot3 r0 c1, dot3 r0 c2),
         (dot3 r1 c0, dot3 r1 c1, dot3 r1 c2),
         (dot3 r2 c0, dot3 r2 c1, dot3 r2 c2)))"

text \<open>\<open>(np.array(shape) - 1) / 2.0\<close>\<close>

definition center_vox :: "int list \<Rightarrow> real list" where
  "center_vox shape = map (\<lambda>n. (real_of_int n - 1) / 2) shape"

text \<open>
  \<open>A_new = np.eye(4); A_new[:3, :3] = R_new; A_new[:3, 3] = t_new\<close>
\<close>

fun assemble :: "mat3 \<Rightarrow> vec3 \<Rightarrow> affine" where
  "assemble ((a00, a01, a02), (a10, a11, a12), (a20, a21, a22)) (t0, t1, t2) =
     ((a00, a01, a02, t0), (a10, a11, a12, t1), (a20, a21, a22, t2), (0, 0, 0, 1))"

text \<open>
  \<open>old_center_mm\<close>, as an array of some length. Without a patch center it is
  \<open>(old_affine @ np.hstack([old_center_vox, 1]))[:3]\<close>, and the product raises unless
  the stacked vector has length 4; with one it is \<open>np.array(patch_center_mm)\<close>.
\<close>

definition old_center_mm :: "affine \<Rightarrow> int list \<Rightarrow> real list option \<Rightarrow> py_error + real list" where
  "old_center_mm old_affine old_shape patch_center_mm =
     (case patch_center_mm of
        None \<Rightarrow>
          (case exact4 (center_vox old_shape @ [1]) of
             Inl e \<Rightarrow> Inl e
           | Inr v \<Rightarrow> (case matvec4 old_affine v of (x, y, z, w) \<Rightarrow> Inr [x, y, z]))
      | Some p \<Rightarrow> Inr p)"

definition build_new_affine ::
  "affine \<Rightarrow> int list \<Rightarrow> voxel_size \<Rightarrow> int list \<Rightarrow> real list option \<Rightarrow> py_error + affine" where
  "build_new_affine old_affine old_shape new_voxel_size new_shape patch_center_mm =
     (let nvs = (case new_voxel_size of Scalar s \<Rightarrow> [s, s, s] | Tuple t \<Rightarrow> t);
          R_in = linear_part old_affine;
          old_scales = col_norms R_in
      in case broadcast3 nvs of
           Inl e \<Rightarrow> Inl e
         | Inr nv \<Rightarrow>
             let sf = vdiv nv old_scales;
                 S = diag sf;
                 R_new = matmul3 R_in S
             in (case old_center_mm old_affine old_shape patch_center_mm of
                   Inl e \<Rightarrow> Inl e
                 | Inr oc \<Rightarrow>
                     (case exact3 (center_vox new_shape) of
                        Inl e \<Rightarrow> Inl e
                      | Inr new_center_vox \<Rightarrow>
                          (case broadcast3 oc of
                             Inl e \<Rightarrow> Inl e
                           | Inr c \<Rightarrow>
                               (let t_new = vsub c (matvec3 R_new new_center_vox);
                                    A_new = assemble R_new t_new
                                in if has_zero old_scales then Inl NonFinite else Inr A_new)))))"

text \<open>
  Reading an affine: the physical point of a voxel index, the first three entries of
  \<open>A @ [i, j, k, 1]\<close>.
\<close>

fun apply_affine :: "affine \<Rightarrow> vec3 \<Rightarrow> vec3" where
  "apply_affine A (i, j, k) = (case matvec4 A (i, j, k, 1) of (x, y, z, w) \<Rightarrow> (x, y, z))"

text \<open>The geometric center of a grid of three axes, voxel index \<open>(shape - 1) / 2\<close>.\<close>

fun grid_center :: "int \<times> int \<times> int \<Rightarrow> vec3" where
  "grid_center (n0, n1, n2) =
     ((real_of_int n0 - 1) / 2, (real_of_int n1 - 1) / 2, (real_of_int n2 - 1) / 2)"

text \<open>
  The voxel sizes a caller may ask for: one number, or a tuple of three. The size asked
  for along each axis.
\<close>

fun valid_voxel_size :: "voxel_size \<Rightarrow> bool" where
  "valid_voxel_size (Scalar s) = True"
| "valid_voxel_size (Tuple t) = (length t = 3)"

fun per_axis :: "voxel_size \<Rightarrow> vec3" where
  "per_axis (Scalar s) = (s, s, s)"
| "per_axis (Tuple t) = (t ! 0, t ! 1, t ! 2)"

text \<open>
  The physical center the new grid is built around: the patch center when one is given,
  otherwise the old grid's center under the old affine.
\<close>

fun chosen_center :: "affine \<Rightarrow> int \<times> int \<times> int \<Rightarrow> vec3 option \<Rightarrow> vec3" where
  "chosen_center old_affine old_shape None = apply_affine old_affine (grid_center old_shape)"
| "chosen_center old_affine old_shape (Some p) = p"

fun as_tuple :: "vec3 \<Rightarrow> real list" where
  "as_tuple (x, y, z) = [x, y, z]"

fun vabs :: "vec3 \<Rightarrow> vec3" where
  "vabs (x, y, z) = (\<bar>x\<bar>, \<bar>y\<bar>, \<bar>z\<bar>)"

fun nonneg3 :: "vec3 \<Rightarrow> bool" where
  "nonneg3 (x, y, z) = (0 \<le> x \<and> 0 \<le> y \<and> 0 \<le> z)"

text \<open>Each column of a matrix scaled by its own factor.\<close>

fun scale_columns :: "mat3 \<Rightarrow> vec3 \<Rightarrow> mat3" where
  "scale_columns ((a00, a01, a02), (a10, a11, a12), (a20, a21, a22)) (s0, s1, s2) =
     ((a00 * s0, a01 * s1, a02 * s2),
      (a10 * s0, a11 * s1, a12 * s2),
      (a20 * s0, a21 * s1, a22 * s2))"

section \<open>compare_interpolation.py\<close>

text \<open>
  \<open>densify_streamline_subvoxel\<close> is imported from module \<open>densify\<close>; the driver
  is modelled for any function in its place. Its arguments are the streamline, the scaled
  step size, \<open>use_gpu\<close>, \<open>interp_method\<close> and \<open>voxel_size\<close>; it can read
  the process environment, which the driver writes before each call.
\<close>

type_synonym densifier =
  "environ \<Rightarrow> streamline \<Rightarrow> real \<Rightarrow> bool \<Rightarrow> string \<Rightarrow> real \<Rightarrow> raised + streamline"

text \<open>
  The lines the driver prints, one constructor for each \<open>print\<close>, with the values it
  formats into the line.
\<close>

datatype message =
    Processing_streamlines nat string real
  | Processing_streamline nat nat
  | Using_scaled_step_size real real real
  | Error_processing_streamline nat string
  | Processed_streamlines nat nat string

text \<open>
  What the driver does to the world around it, in order: a line printed, a variable of
  the environment written, the densifier called with these arguments.
\<close>

datatype event =
    Print message
  | Setenv string string
  | Call_densify streamline real bool string real

record state =
  environ :: environ
  trace :: "event list"

definition emit :: "event \<Rightarrow> state \<Rightarrow> state" where
  "emit e st = st\<lparr>trace := trace st @ [e]\<rparr>"

text \<open>\<open>os.environ[k] = v\<close>\<close>

definition setenv :: "string \<Rightarrow> string \<Rightarrow> state \<Rightarrow> state" where
  "setenv k v st = emit (Setenv k v) (st\<lparr>environ := (environ st)(k \<mapsto> v)\<rparr>)"

text \<open>
  The \<open>for idx, stream in enumerate(streamlines)\<close> loop, from index \<open>idx\<close> on, with
  the list \<open>processed\<close> built so far; \<open>n\<close> is \<open>len(streamlines)\<close>. An
  \<open>Exception\<close> from the densifier is caught, printed with the index, and the loop goes
  on; anything else it raises leaves the function.
\<close>

fun process_loop ::
  "densifier \<Rightarrow> real \<Rightarrow> string \<Rightarrow> real \<Rightarrow> bool \<Rightarrow> nat \<Rightarrow> nat \<Rightarrow> streamline list \<Rightarrow>
   streamline list \<Rightarrow> state \<Rightarrow> (raised + streamline list) \<times> state" where
  "process_loop densify step_size method voxel_size use_gpu n idx [] processed st =
     (Inr processed, st)"
| "process_loop densify step_size method voxel_size use_gpu n idx (stream # rest) processed st =
     (let st1 = (if idx mod 50 = 0 then emit (Print (Processing_streamline idx n)) st else st);
          st2 = setenv ''DEBUG_TANGENTS'' (if idx < 5 then ''1'' else ''0'') st1;
          scaled_step_size = step_size * (voxel_size / 1);
          st3 = (if idx < 5
                 then emit (Print (Using_scaled_step_size scaled_step_size step_size voxel_size)) st2
                 else st2);
          st4 = emit (Call_densify stream scaled_step_size use_gpu method voxel_size) st3
      in case densify (environ st4) stream scaled_step_size use_gpu method voxel_size of
           Inr densified \<Rightarrow>
             process_loop densify step_size method voxel_size use_gpu n (Suc idx) rest
               (processed @ [densified]) st4
         | Inl (Error e) \<Rightarrow>
             process_loop densify step_size method voxel_size use_gpu n (Suc idx) rest
               processed (emit (Print (Error_processing_streamline idx e)) st4)
         | Inl Interrupt \<Rightarrow> (Inl Interrupt, st4))"

text \<open>
  The function, run in the environment \<open>env\<close>: its result, and the environment and
  the trace it leaves.
\<close>

definition process_streamlines_with_method ::
  "densifier \<Rightarrow> streamline list \<Rightarrow> real \<Rightarrow> string \<Rightarrow> real \<Rightarrow> bool \<Rightarrow> environ \<Rightarrow>
   (raised + streamline list) \<times> state" where
  "process_streamlines_with_method densify streamlines step_size method voxel_size use_gpu env =
     (let st0 = emit (Print (Processing_streamlines (length streamlines) method voxel_size))
                  \<lparr>environ = env, trace = []\<rparr>
      in case process_loop densify step_size method voxel_size use_gpu (length streamlines) 0
                streamlines [] st0 of
           (Inr processed, st1) \<Rightarrow>
             (Inr processed,
              emit (Print (Processed_streamlines (length processed) (length streamlines) method)) st1)
         | (Inl e, st1) \<Rightarrow> (Inl e, st1))"

subsection \<open>Reading a run of the driver\<close>

text \<open>The value the driver gives the debug variable for the streamline of index \<open>idx\<close>.\<close>

definition debug_flag :: "nat \<Rightarrow> string" where
  "debug_flag idx = (if idx < 5 then ''1'' else ''0'')"

text \<open>The environment in which the streamline of index \<open>idx\<close> is densified.\<close>

definition env_at :: "environ \<Rightarrow> nat \<Rightarrow> environ" where
  "env_at env idx = env(''DEBUG_TANGENTS'' \<mapsto> debug_flag idx)"

text \<open>
  The streamlines of a batch that the densifier returns a result for, densified, in the
  order of the batch; and those it raises an \<open>Exception\<close> for, as index and message.
  \<open>idx\<close> is the index of the head of the list.
\<close>

fun succeeded ::
  "densifier \<Rightarrow> real \<Rightarrow> string \<Rightarrow> real \<Rightarrow> bool \<Rightarrow> environ \<Rightarrow> nat \<Rightarrow> streamline list \<Rightarrow>
   streamline list" where
  "succeeded d step method vs gpu env idx [] = []"
| "succeeded d step method vs gpu env idx (s # ss) =
     (case d (env_at env idx) s (step * vs) gpu method vs of
        Inr y \<Rightarrow> y # succeeded d step method vs gpu env (Suc idx) ss
      | Inl e \<Rightarrow> succeeded d step method vs gpu env (Suc idx) ss)"

fun failed ::
  "densifier \<Rightarrow> real \<Rightarrow> string \<Rightarrow> real \<Rightarrow> bool \<Rightarrow> environ \<Rightarrow> nat \<Rightarrow> streamline list \<Rightarrow>
   (nat \<times> string) list" where
  "failed d step method vs gpu env idx [] = []"
| "failed d step method vs gpu env idx (s # ss) =
     (case d (env_at env idx) s (step * vs) gpu method vs of
        Inl (Error e) \<Rightarrow> (idx, e) # failed d step method vs gpu env (Suc idx) ss
      | _ \<Rightarrow> failed d step method vs gpu env (Suc idx) ss)"

text \<open>The error lines of a trace, the step sizes of its calls to the densifier.\<close>

fun logged_errors :: "event list \<Rightarrow> (nat \<times> string) list" where
  "logged_errors [] = []"
| "logged_errors (Print (Error_processing_streamline i e) # es) = (i, e) # logged_errors es"
| "logged_errors (e # es) = logged_errors es"

fun passed_steps :: "event list \<Rightarrow> real list" where
  "passed_steps [] = []"
| "passed_steps (Call_densify s st g m v # es) = st # passed_steps es"
| "passed_steps (e # es) = passed_steps es"

text \<open>
  The value of \<open>DEBUG_TANGENTS\<close> at each call of the densifier, as the trace orders the
  writes and the calls; \<open>cur\<close> is the value before the trace. \<open>last_flag\<close> is the
  value after it.
\<close>

fun flags_at_calls :: "string option \<Rightarrow> event list \<Rightarrow> string option list" where
  "flags_at_calls cur [] = []"
| "flags_at_calls cur (Setenv k v # es) =
     flags_at_calls (if k = ''DEBUG_TANGENTS'' then Some v else cur) es"
| "flags_at_calls cur (Call_densify s st g m v # es) = cur # flags_at_calls cur es"
| "flags_at_calls cur (Print m # es) = flags_at_calls cur es"

fun last_flag :: "string option \<Rightarrow> event list \<Rightarrow> string option" where
  "last_flag cur [] = cur"
| "last_flag cur (Setenv k v # es) = last_flag (if k = ''DEBUG_TANGENTS'' then Some v else cur) es"
| "last_flag cur (e # es) = last_flag cur es"

text \<open>The state in which the loop calls the densifier for the streamline of index \<open>idx\<close>.\<close>

definition at_call ::
  "real \<Rightarrow> string \<Rightarrow> real \<Rightarrow> bool \<Rightarrow> nat \<Rightarrow> nat \<Rightarrow> streamline \<Rightarrow> state \<Rightarrow> state" where
  "at_call step method vs gpu n idx s st =
     (let st1 = (if idx mod 50 = 0 then emit (Print (Processing_streamline idx n)) st else st);
          st2 = setenv ''DEBUG_TANGENTS'' (if idx < 5 then ''1'' else ''0'') st1;
          st3 = (if idx < 5 then emit (Print (Using_scaled_step_size (step * (vs / 1)) step vs)) st2
                 else st2)
      in emit (Call_densify s (step * (vs / 1)) gpu method vs) st3)"

text \<open>
  A densifier for the examples: it raises for a streamline of fewer than two points and
  returns any other as it is.
\<close>

definition keep_long :: densifier where
  "keep_long env s step gpu method vs = (if length s < 2 then Inl (Error ''too short'') else Inr s)"

text \<open>
  Another densifier for the examples, one that reads the environment: it returns the
  streamline as it is when \<open>DEBUG_TANGENTS\<close> is "1" and raises otherwise.
\<close>

definition flag_probe :: densifier where
  "flag_probe env s step gpu meth vs =
     (if env ''DEBUG_TANGENTS'' = Some ''1'' then Inr s else Inl (Error ''flag off''))"

section \<open>Module densify\<close>

text \<open>
  Modelled from the spec: \<open>densify_streamline_subvoxel\<close> of module \<open>densify\<close>, which
  compare_interpolation.py imports and calls and whose code is not among the sources. The
  definitions of this section follow the Densifier of the specification (section 4.4):
  each segment is cut into \<open>ceil(length / step_size)\<close> sub-steps; the linear method
  interpolates between the two end points; the Hermite method estimates a tangent at each
  point from its neighbours (central difference inside, one-sided at the two ends), scales
  it to the length of the segment and blends positions and tangents with the cubic Hermite
  basis; a streamline of fewer than two points is returned unchanged; a debug flag asks for
  the tangents and the basis weights to be emitted. The flag is read from the variable
  \<open>DEBUG_TANGENTS\<close> that the driver writes. The specification names no third method and
  gives \<open>use_gpu\<close> and \<open>voxel_size\<close> no effect on the points: the model raises for
  another method name and ignores the two arguments.
\<close>

fun vadd :: "vec3 \<Rightarrow> vec3 \<Rightarrow> vec3" where
  "vadd (a, b, c) (x, y, z) = (a + x, b + y, c + z)"

fun smul :: "real \<Rightarrow> vec3 \<Rightarrow> vec3" where
  "smul k (x, y, z) = (k * x, k * y, k * z)"

fun norm3 :: "vec3 \<Rightarrow> real" where
  "norm3 (x, y, z) = sqrt (x\<^sup>2 + y\<^sup>2 + z\<^sup>2)"

definition sub_steps :: "vec3 \<Rightarrow> vec3 \<Rightarrow> real \<Rightarrow> nat" where
  "sub_steps p q step_size = nat \<lceil>norm3 (vsub q p) / step_size\<rceil>"

text \<open>The parameters of the sub-points of a segment of n sub-steps: 1/n, 2/n, up to 1.\<close>

definition sub_parameters :: "nat \<Rightarrow> real list" where
  "sub_parameters n = map (\<lambda>k. real k / real n) [1 ..< Suc n]"

definition linear_segment :: "vec3 \<Rightarrow> vec3 \<Rightarrow> real \<Rightarrow> vec3 list" where
  "linear_segment p q step_size =
     map (\<lambda>t. vadd p (smul t (vsub q p))) (sub_parameters (sub_steps p q step_size))"

fun linear_points :: "streamline \<Rightarrow> real \<Rightarrow> vec3 list" where
  "linear_points (p # q # rest) step_size =
     linear_segment p q step_size @ linear_points (q # rest) step_size"
| "linear_points ps step_size = []"

text \<open>The tangent at point i of a streamline of at least two points, for i below its length.\<close>

definition tangent_at :: "streamline \<Rightarrow> nat \<Rightarrow> vec3" where
  "tangent_at ps i =
     (if i = 0 then vsub (ps ! 1) (ps ! 0)
      else if Suc i = length ps then vsub (ps ! i) (ps ! (i - 1))
      else smul (1 / 2) (vsub (ps ! (i + 1)) (ps ! (i - 1))))"

text \<open>A tangent normalised and scaled to the length of a segment; a zero tangent stays zero.\<close>

definition scaled_tangent :: "vec3 \<Rightarrow> real \<Rightarrow> vec3" where
  "scaled_tangent t len = (if norm3 t = 0 then (0, 0, 0) else smul (len / norm3 t) t)"

definition h00 :: "real \<Rightarrow> real" where "h00 t = 2 * t ^ 3 - 3 * t\<^sup>2 + 1"
definition h10 :: "real \<Rightarrow> real" where "h10 t = t ^ 3 - 2 * t\<^sup>2 + t"
definition h01 :: "real \<Rightarrow> real" where "h01 t = - 2 * t ^ 3 + 3 * t\<^sup>2"
definition h11 :: "real \<Rightarrow> real" where "h11 t = t ^ 3 - t\<^sup>2"

definition hermite_point :: "vec3 \<Rightarrow> vec3 \<Rightarrow> vec3 \<Rightarrow> vec3 \<Rightarrow> real \<Rightarrow> vec3" where
  "hermite_point p0 m0 p1 m1 t =
     vadd (vadd (smul (h00 t) p0) (smul (h10 t) m0)) (vadd (smul (h01 t) p1) (smul (h11 t) m1))"

text \<open>What the debug flag makes the densifier emit.\<close>

datatype diagnostic = Tangent vec3 | Basis_weights real real real real

text \<open>The sub-points of one segment and what is emitted for it.\<close>

definition hermite_segment ::
  "bool \<Rightarrow> vec3 \<Rightarrow> vec3 \<Rightarrow> vec3 \<Rightarrow> vec3 \<Rightarrow> real \<Rightarrow> vec3 list \<times> diagnostic list" where
  "hermite_segment debug p0 t0 p1 t1 step_size =
     (let len = norm3 (vsub p1 p0);
          m0 = scaled_tangent t0 len;
          m1 = scaled_tangent t1 len;
          ts = sub_parameters (sub_steps p0 p1 step_size)
      in (map (hermite_point p0 m0 p1 m1) ts,
          if debug
          then [Tangent m0, Tangent m1]
               @ map (\<lambda>t. Basis_weights (h00 t) (h10 t) (h01 t) (h11 t)) ts
          else []))"

definition hermite_segments ::
  "bool \<Rightarrow> streamline \<Rightarrow> real \<Rightarrow> (vec3 list \<times> diagnostic list) list" where
  "hermite_segments debug ps step_size =
     map (\<lambda>i. hermite_segment debug (ps ! i) (tangent_at ps i)
                 (ps ! Suc i) (tangent_at ps (Suc i)) step_size)
         [0 ..< length ps - 1]"

definition debug_tangents :: "environ \<Rightarrow> bool" where
  "debug_tangents env = (env ''DEBUG_TANGENTS'' = Some ''1'')"

text \<open>The result of the call, and what it emits.\<close>

definition densify_streamline_subvoxel ::
  "environ \<Rightarrow> streamline \<Rightarrow> real \<Rightarrow> bool \<Rightarrow> string \<Rightarrow> real \<Rightarrow>
   (raised + streamline) \<times> diagnostic list" where
  "densify_streamline_subvoxel env stream step_size use_gpu interp_method voxel_size =
     (if length stream < 2 then (Inr stream, [])
      else if interp_method = ''linear''
      then (Inr (hd stream # linear_points stream step_size), [])
      else if interp_method = ''hermite''
      then (let segs = hermite_segments (debug_tangents env) stream step_size
            in (Inr (hd stream # concat (map fst segs)), concat (map snd segs)))
      else (Inl (Error ''unknown interpolation method''), []))"

text \<open>The densifier as the driver calls it.\<close>

definition densify :: "environ \<Rightarrow> streamline \<Rightarrow> real \<Rightarrow> bool \<Rightarrow> string \<Rightarrow> real \<Rightarrow> raised + streamline" where
  "densify env stream step_size use_gpu interp_method voxel_size =
     fst (densify_streamline_subvoxel env stream step_size use_gpu interp_method voxel_size)"

section \<open>main.py\<close>

subsection \<open>Binding the arguments of a call\<close>

text \<open>The values process_and_save passes to build_new_affine.\<close>

datatype py_value =
    Affine_value affine
  | Shape_value "int list"
  | Voxel_size_value voxel_size
  | Center_value "real list option"
  | Bool_value bool

text \<open>
  \<open>def build_new_affine(old_affine, old_shape, new_voxel_size, new_shape,
  patch_center_mm=None)\<close>: the parameters in order, each with its default if it has one.
\<close>

definition build_new_affine_parameters :: "(string \<times> py_value option) list" where
  "build_new_affine_parameters =
     [(''old_affine'', None), (''old_shape'', None), (''new_voxel_size'', None),
      (''new_shape'', None), (''patch_center_mm'', Some (Center_value None))]"

text \<open>
  How Python binds a call to a function whose parameters are all positional-or-keyword.
  Positional arguments fill the parameters from the left, and more of them than
  parameters is a TypeError. A keyword argument must name a parameter that is not filled
  yet: an unexpected keyword and a second value for a parameter are TypeErrors. A
  parameter left unfilled takes its default, and is a TypeError when it has none.
\<close>

fun bind_positional :: "string list \<Rightarrow> py_value list \<Rightarrow> py_error + (string \<rightharpoonup> py_value)" where
  "bind_positional names [] = Inr Map.empty"
| "bind_positional [] (v # vs) = Inl TypeError"
| "bind_positional (n # names) (v # vs) =
     (case bind_positional names vs of Inl e \<Rightarrow> Inl e | Inr b \<Rightarrow> Inr (b(n \<mapsto> v)))"

fun bind_keywords ::
  "string list \<Rightarrow> (string \<times> py_value) list \<Rightarrow> (string \<rightharpoonup> py_value) \<Rightarrow>
   py_error + (string \<rightharpoonup> py_value)" where
  "bind_keywords names [] b = Inr b"
| "bind_keywords names ((k, v) # kws) b =
     (if k \<notin> set names then Inl TypeError
      else if b k \<noteq> None then Inl TypeError
      else bind_keywords names kws (b(k \<mapsto> v)))"

fun fill_defaults ::
  "(string \<times> py_value option) list \<Rightarrow> (string \<rightharpoonup> py_value) \<Rightarrow>
   py_error + (string \<rightharpoonup> py_value)" where
  "fill_defaults [] b = Inr b"
| "fill_defaults ((n, d) # ps) b =
     (case b n of
        Some v \<Rightarrow> fill_defaults ps b
      | None \<Rightarrow> (case d of None \<Rightarrow> Inl TypeError | Some v \<Rightarrow> fill_defaults ps (b(n \<mapsto> v))))"

definition bind_arguments ::
  "(string \<times> py_value option) list \<Rightarrow> py_value list \<Rightarrow> (string \<times> py_value) list \<Rightarrow>
   py_error + (string \<rightharpoonup> py_value)" where
  "bind_arguments params positional keywords =
     (case bind_positional (map fst params) positional of
        Inl e \<Rightarrow> Inl e
      | Inr b \<Rightarrow>
          (case bind_keywords (map fst params) keywords b of
             Inl e \<Rightarrow> Inl e
           | Inr b' \<Rightarrow> fill_defaults params b'))"

text \<open>
  A call \<open>build_new_affine(...)\<close> with these positional and keyword arguments: the
  arguments are bound, then the body runs on them. (The last line stands for arguments
  of other types than the body computes with; process_and_save passes none.)
\<close>

definition call_build_new_affine ::
  "py_value list \<Rightarrow> (string \<times> py_value) list \<Rightarrow> py_error + affine" where
  "call_build_new_affine positional keywords =
     (case bind_arguments build_new_affine_parameters positional keywords of
        Inl e \<Rightarrow> Inl e
      | Inr b \<Rightarrow>
          (case (b ''old_affine'', b ''old_shape'', b ''new_voxel_size'', b ''new_shape'',
                 b ''patch_center_mm'') of
             (Some (Affine_value A), Some (Shape_value os), Some (Voxel_size_value vs),
              Some (Shape_value ns), Some (Center_value pc)) \<Rightarrow> build_new_affine A os vs ns pc
           | _ \<Rightarrow> Inl TypeError))"

subsection \<open>The functions process_and_save calls\<close>

text \<open>What \<open>nib.load\<close> returns, as far as process_and_save reads it.\<close>

record image =
  img_affine :: affine
  img_shape :: "int list"
  img_zooms :: "real list"

text \<open>\<open>import cupy as xp; from numba import cuda\<close>\<close>

datatype import_outcome = Imported | Import_error | Import_raised raised

text \<open>
  The functions of nibabel, numpy, cupy, os and of the modules nifti_preprocessing and
  streamline_processing that process_and_save calls, each as the result it gives for its
  arguments. \<open>'v\<close> is the type of arrays and \<open>'t\<close> of loaded tractogram files.

  \<^item> \<open>resample_nifti(old_img, A_new, new_dim, chunk_size=(64, 64, 64), n_jobs, use_gpu,
    max_output_gb)\<close> returns the array and the path of its scratch file.
  \<^item> \<open>reduce use_gpu name\<close> is \<open>xp.max\<close> or \<open>xp.mean\<close> along axis 1 followed by
    \<open>[..., xp.newaxis]\<close>, with \<open>np\<close> for \<open>xp\<close> when \<open>use_gpu\<close> is false.
  \<^item> \<open>nib_save data affine path\<close> is \<open>nib.save(nib.Nifti1Image(data, affine), path)\<close>.
  \<^item> \<open>save_trk streamlines affine dimensions voxel_sizes file path\<close> builds the header
    from the loaded file's, the Tractogram, and saves it.
\<close>

record ('v, 't) collaborators =
  import_gpu :: import_outcome
  nib_load :: "string \<Rightarrow> raised + image"
  resample_nifti :: "image \<Rightarrow> affine \<Rightarrow> int list \<Rightarrow> int \<Rightarrow> bool \<Rightarrow> real \<Rightarrow> raised + ('v \<times> string)"
  shape_of :: "'v \<Rightarrow> int list"
  reduce :: "bool \<Rightarrow> string \<Rightarrow> 'v \<Rightarrow> raised + 'v"
  asnumpy :: "'v \<Rightarrow> raised + 'v"
  nib_save :: "'v \<Rightarrow> affine \<Rightarrow> string \<Rightarrow> raised + unit"
  path_exists :: "string \<Rightarrow> bool"
  os_remove :: "string \<Rightarrow> raised + unit"
  streamlines_load :: "string \<Rightarrow> raised + 't"
  trk_streamlines :: "'t \<Rightarrow> streamline list"
  transform_and_densify_streamlines ::
    "streamline list \<Rightarrow> affine \<Rightarrow> int list \<Rightarrow> real \<Rightarrow> int \<Rightarrow> bool \<Rightarrow> string \<Rightarrow> raised + streamline list"
  save_trk :: "streamline list \<Rightarrow> affine \<Rightarrow> int list \<Rightarrow> vec3 \<Rightarrow> 't \<Rightarrow> string \<Rightarrow> raised + unit"

subsection \<open>Runs and their traces\<close>

datatype operation =
    Nib_load string
  | Build_new_affine
  | Resample_nifti
  | Reduce string
  | Asnumpy
  | Nib_save string
  | Path_exists string
  | Os_remove string
  | Streamlines_load string
  | Transform_and_densify_streamlines
  | Save_trk string

text \<open>
  What a run does, in order. \<open>Say\<close> is a \<open>print\<close>, named by the start of its line;
  \<open>Processed n\<close> is the line \<open>Processed n streamlines\<close> and
  \<open>No_streamlines_warning\<close> the line \<open>WARNING: No streamlines were processed\<close>.
  \<open>Call\<close> is a call of one of the functions above, and \<open>Return\<close> follows it when
  the function returns rather than raises.
\<close>

datatype action =
    Say string
  | Processed nat
  | No_streamlines_warning
  | Call operation
  | Return operation

type_synonym 'a run = "(py_error + 'a) \<times> action list"

definition say :: "string \<Rightarrow> action list \<Rightarrow> action list" where
  "say line tr = tr @ [Say line]"

text \<open>A call of a function that returned or raised \<open>res\<close>.\<close>

definition perform :: "operation \<Rightarrow> raised + 'a \<Rightarrow> action list \<Rightarrow> 'a run" where
  "perform op res tr =
     (case res of
        Inl e \<Rightarrow> (Inl (Raised e), tr @ [Call op])
      | Inr v \<Rightarrow> (Inr v, tr @ [Call op, Return op]))"

text \<open>One statement after another: an exception of the first ends the run.\<close>

definition then_do :: "'a run \<Rightarrow> ('a \<Rightarrow> action list \<Rightarrow> 'b run) \<Rightarrow> 'b run" where
  "then_do r f = (case r of (Inl e, tr) \<Rightarrow> (Inl e, tr) | (Inr v, tr) \<Rightarrow> f v tr)"

subsection \<open>process_and_save\<close>

text \<open>Lines 55 to 67: the array library. The result is \<open>use_gpu\<close> as the rest reads it.\<close>

definition select_backend :: "('v, 't) collaborators \<Rightarrow> bool \<Rightarrow> action list \<Rightarrow> bool run" where
  "select_backend ext use_gpu tr =
     (if use_gpu
      then (case import_gpu ext of
              Imported \<Rightarrow> (Inr True, say ''Using GPU acceleration'' tr)
            | Import_error \<Rightarrow>
                (Inr False, say ''Could not import GPU libraries, falling back to CPU'' tr)
            | Import_raised e \<Rightarrow> (Inl (Raised e), tr))
      else (Inr False, say ''Using CPU processing'' tr))"

text \<open>
  Lines 95 to 115: the optional reduction along axis 1. The result is the array and
  \<open>new_dim\<close> as the rest reads them. \<open>(new_dim[0], 1, new_dim[2])\<close> raises IndexError
  on a tuple of fewer than three entries.
\<close>

definition reduction ::
  "('v, 't) collaborators \<Rightarrow> bool \<Rightarrow> string option \<Rightarrow> 'v \<Rightarrow> int list \<Rightarrow> action list \<Rightarrow>
   ('v \<times> int list) run" where
  "reduction ext use_gpu reduction_method new_data new_dim tr =
     (case reduction_method of
        None \<Rightarrow> (Inr (new_data, new_dim), tr)
      | Some name \<Rightarrow>
          if name = [] then (Inr (new_data, new_dim), tr)
          else
            (let tr1 = say ''Applying reduction:'' tr
             in if name = ''mip'' \<or> name = ''mean''
                then then_do (perform (Reduce name) (reduce ext use_gpu name new_data) tr1)
                       (\<lambda>reduced_data tr2.
                          (case new_dim of
                             d0 # d1 # d2 # rest \<Rightarrow> (Inr (reduced_data, [d0, 1, d2]), tr2)
                           | _ \<Rightarrow> (Inl IndexError, tr2)))
                else (Inl ValueError, tr1)))"

text \<open>
  Lines 123 and 124: \<open>if os.path.exists(tmp_mmap): os.remove(tmp_mmap)\<close>.
\<close>

definition remove_scratch :: "('v, 't) collaborators \<Rightarrow> string \<Rightarrow> action list \<Rightarrow> unit run" where
  "remove_scratch ext tmp_mmap tr =
     (let tr1 = tr @ [Call (Path_exists tmp_mmap), Return (Path_exists tmp_mmap)]
      in if path_exists ext tmp_mmap
         then perform (Os_remove tmp_mmap) (os_remove ext tmp_mmap) tr1
         else (Inr (), tr1))"

text \<open>
  Lines 82 to 93: the resampling. The result is the array and the path of its scratch
  file.
\<close>

definition resample_stage ::
  "('v, 't) collaborators \<Rightarrow> image \<Rightarrow> affine \<Rightarrow> int list \<Rightarrow> int \<Rightarrow> bool \<Rightarrow> real \<Rightarrow>
   action list \<Rightarrow> ('v \<times> string) run" where
  "resample_stage ext old_img A_new new_dim n_jobs use_gpu max_output_gb tr =
     (let tr1 = say ''Resampling to dimensions:''
                  (say ''Resampling NIfTI data using''
                    (say ''New dimensions:'' (say ''New affine:'' tr)))
      in then_do (perform Resample_nifti
                    (resample_nifti ext old_img A_new new_dim n_jobs use_gpu max_output_gb) tr1)
           (\<lambda>(new_data, tmp_mmap) tr2.
              let tr3 = say ''Resampled data shape:'' tr2
              in (Inr (new_data, tmp_mmap),
                  if take 3 (shape_of ext new_data) \<noteq> new_dim
                  then say ''This could lead to streamline clipping issues!''
                         (say ''WARNING: Resampled shape'' tr3)
                  else tr3)))"

text \<open>
  Lines 117 to 125: the volume is brought to the host, written to its output path, and the
  scratch file is removed.
\<close>

definition save_volume ::
  "('v, 't) collaborators \<Rightarrow> 'v \<Rightarrow> string \<Rightarrow> affine \<Rightarrow> string \<Rightarrow> bool \<Rightarrow> action list \<Rightarrow>
   unit run" where
  "save_volume ext new_data tmp_mmap A_new output_prefix use_gpu tr =
     then_do (if use_gpu then perform Asnumpy (asnumpy ext new_data) tr else (Inr new_data, tr))
       (\<lambda>new_data_np tr1.
          let tr2 = say ''Final data shape before saving:'' tr1;
              out_nifti_path = output_prefix @ ''.nii.gz''
          in then_do (perform (Nib_save out_nifti_path)
                        (nib_save ext new_data_np A_new out_nifti_path) tr2)
               (\<lambda>saved tr3.
                  then_do (remove_scratch ext tmp_mmap tr3)
                    (\<lambda>removed tr4. (Inr (), say ''Saved new NIfTI at'' tr4))))"

text \<open>
  Lines 82 to 125: resampling, reduction and saving of the volume. The result is
  \<open>new_dim\<close> as the streamline part reads it.
\<close>

definition volume_stage ::
  "('v, 't) collaborators \<Rightarrow> image \<Rightarrow> affine \<Rightarrow> int list \<Rightarrow> string \<Rightarrow> int \<Rightarrow> string option \<Rightarrow>
   bool \<Rightarrow> real \<Rightarrow> action list \<Rightarrow> (int list) run" where
  "volume_stage ext old_img A_new new_dim output_prefix n_jobs reduction_method use_gpu
     max_output_gb tr =
     then_do (resample_stage ext old_img A_new new_dim n_jobs use_gpu max_output_gb tr)
       (\<lambda>(new_data, tmp_mmap) tr1.
          then_do (reduction ext use_gpu reduction_method new_data new_dim tr1)
            (\<lambda>(new_data', new_dim') tr2.
               then_do (save_volume ext new_data' tmp_mmap A_new output_prefix use_gpu tr2)
                 (\<lambda>saved tr3. (Inr new_dim', tr3))))"

text \<open>
  Lines 127 to 171: loading, processing and saving of the streamlines. The two
  \<open>Change in\<close> lines divide by the number of loaded streamlines and by the number of
  their points.
\<close>

definition streamline_stage ::
  "('v, 't) collaborators \<Rightarrow> string \<Rightarrow> affine \<Rightarrow> int list \<Rightarrow> string \<Rightarrow> int \<Rightarrow> bool \<Rightarrow> string \<Rightarrow>
   real \<Rightarrow> action list \<Rightarrow> unit run" where
  "streamline_stage ext old_trk_path A_new new_dim output_prefix n_jobs use_gpu interp_method
     step_size tr =
     (let tr1 = say ''Loading tractography data'' tr
      in then_do (perform (Streamlines_load old_trk_path) (streamlines_load ext old_trk_path) tr1)
           (\<lambda>trk_obj tr2.
              let old_streams_mm = trk_streamlines ext trk_obj;
                  total_points = sum_list (map length old_streams_mm);
                  tr3 = say ''Step size:''
                          (say ''Transforming, densifying, and clipping streamlines using''
                            (say ''Average points per streamline:''
                              (say ''Total points in original streamlines:''
                                (say ''Loaded'' tr2))))
              in then_do (perform Transform_and_densify_streamlines
                            (transform_and_densify_streamlines ext old_streams_mm A_new new_dim
                               step_size n_jobs use_gpu interp_method) tr3)
                   (\<lambda>densified_vox tr4.
                      let tr5 = tr4 @ [Processed (length densified_vox)]
                      in if length densified_vox = 0
                         then (Inr (), tr5 @ [No_streamlines_warning])
                         else
                           (let tr6 = say ''Average points per streamline:''
                                        (say ''Total points in processed streamlines:'' tr5)
                            in if length old_streams_mm = 0 then (Inl ZeroDivisionError, tr6)
                               else
                                 (let tr7 = say ''Change in streamline count:'' tr6
                                  in if total_points = 0 then (Inl ZeroDivisionError, tr7)
                                     else
                                       (let tr8 = say ''Saving new .trk file''
                                                    (say ''Change in point count:'' tr7);
                                            new_voxsize = col_norms (linear_part A_new);
                                            out_trk_path = output_prefix @ ''.trk''
                                        in then_do (perform (Save_trk out_trk_path)
                                                      (save_trk ext densified_vox A_new new_dim
                                                         new_voxsize trk_obj out_trk_path) tr8)
                                             (\<lambda>saved tr9.
                                                (Inr (),
                                                 say ''Process completed successfully''
                                                   (say ''Saved new .trk at'' tr9)))))))))"

text \<open>Lines 82 to 171: the body of process_and_save from the point where \<open>A_new\<close> is bound.\<close>

definition process_and_save_from_affine ::
  "('v, 't) collaborators \<Rightarrow> image \<Rightarrow> affine \<Rightarrow> string \<Rightarrow> int list \<Rightarrow> string \<Rightarrow> int \<Rightarrow>
   string option \<Rightarrow> bool \<Rightarrow> string \<Rightarrow> real \<Rightarrow> real \<Rightarrow> action list \<Rightarrow> unit run" where
  "process_and_save_from_affine ext old_img A_new old_trk_path new_dim output_prefix n_jobs
     reduction_method use_gpu interp_method step_size max_output_gb tr =
     then_do (volume_stage ext old_img A_new new_dim output_prefix n_jobs reduction_method use_gpu
                max_output_gb tr)
       (\<lambda>new_dim' tr'.
          streamline_stage ext old_trk_path A_new new_dim' output_prefix n_jobs use_gpu
            interp_method step_size tr')"

text \<open>
  The function. Line 80 calls \<open>build_new_affine(old_affine, old_shape, new_voxel_size,
  new_dim, patch_center_mm=patch_center, use_gpu=use_gpu)\<close>. (Were the call to return an
  array holding \<open>inf\<close> or \<open>nan\<close>, the run is reported as that outcome.)
\<close>

definition process_and_save ::
  "('v, 't) collaborators \<Rightarrow> string \<Rightarrow> string \<Rightarrow> voxel_size \<Rightarrow> int list \<Rightarrow> string \<Rightarrow> int \<Rightarrow>
   real list option \<Rightarrow> string option \<Rightarrow> bool \<Rightarrow> string \<Rightarrow> real \<Rightarrow> real \<Rightarrow> unit run" where
  "process_and_save ext old_nifti_path old_trk_path new_voxel_size new_dim output_prefix n_jobs
     patch_center reduction_method use_gpu interp_method step_size max_output_gb =
     then_do (select_backend ext use_gpu [])
       (\<lambda>use_gpu' tr.
          then_do (perform (Nib_load old_nifti_path) (nib_load ext old_nifti_path)
                     (say ''Loading NIfTI data'' tr))
            (\<lambda>old_img tr1.
               let old_affine = img_affine old_img;
                   old_shape = take 3 (img_shape old_img);
                   tr2 = say ''Using dimensions:''
                           (say ''Building new affine''
                             (say ''Old affine:''
                               (say ''Old voxel sizes:'' (say ''Old shape:'' tr1))));
                   tr3 = tr2 @ [Call Build_new_affine]
               in case call_build_new_affine
                         [Affine_value old_affine, Shape_value old_shape,
                          Voxel_size_value new_voxel_size, Shape_value new_dim]
                         [(''patch_center_mm'', Center_value patch_center),
                          (''use_gpu'', Bool_value use_gpu')] of
                    Inl e \<Rightarrow> (Inl e, tr3)
                  | Inr A_new \<Rightarrow>
                      process_and_save_from_affine ext old_img A_new old_trk_path new_dim
                        output_prefix n_jobs reduction_method use_gpu' interp_method step_size
                        max_output_gb (tr3 @ [Return Build_new_affine])))"

subsection \<open>Reading a trace\<close>

text \<open>
  Every removal of a file in the trace comes after a save of the volume has returned;
  \<open>saved\<close> tells whether one has returned before the trace. \<open>volume_saved\<close> tells
  whether one returns in the trace.
\<close>

fun removes_after_save :: "bool \<Rightarrow> action list \<Rightarrow> bool" where
  "removes_after_save saved [] = True"
| "removes_after_save saved (Return (Nib_save p) # as) = removes_after_save True as"
| "removes_after_save saved (Call (Os_remove p) # as) = (saved \<and> removes_after_save saved as)"
| "removes_after_save saved (a # as) = removes_after_save saved as"

fun volume_saved :: "action list \<Rightarrow> bool" where
  "volume_saved [] = False"
| "volume_saved (Return (Nib_save p) # as) = True"
| "volume_saved (a # as) = volume_saved as"

text \<open>The calls that write a streamline file, and the calls that resample.\<close>

fun trk_saves :: "action list \<Rightarrow> string list" where
  "trk_saves [] = []"
| "trk_saves (Call (Save_trk p) # as) = p # trk_saves as"
| "trk_saves (a # as) = trk_saves as"

fun resamplings :: "action list \<Rightarrow> nat" where
  "resamplings [] = 0"
| "resamplings (Call Resample_nifti # as) = Suc (resamplings as)"
| "resamplings (a # as) = resamplings as"

text \<open>Collaborators for the examples: every function returns, and finds nothing to do.\<close>

definition quiet :: "(int list, streamline list) collaborators" where
  "quiet =
     \<lparr>import_gpu = Import_error,
      nib_load = (\<lambda>p. Inr \<lparr>img_affine = ((2, 0, 0, 10), (0, 2, 0, 20), (0, 0, 2, 30), (0, 0, 0, 1)),
                          img_shape = [4, 6, 8], img_zooms = [2, 2, 2]\<rparr>),
      resample_nifti = (\<lambda>img A dim jobs gpu gb. Inr (dim, ''scratch.mmap'')),
      shape_of = (\<lambda>v. v),
      reduce = (\<lambda>gpu name v. Inr v),
      asnumpy = (\<lambda>v. Inr v),
      nib_save = (\<lambda>v A p. Inr ()),
      path_exists = (\<lambda>p. True),
      os_remove = (\<lambda>p. Inr ()),
      streamlines_load = (\<lambda>p. Inr [[(0, 0, 0), (1, 0, 0)]]),
      trk_streamlines = (\<lambda>t. t),
      transform_and_densify_streamlines = (\<lambda>ss A dim step jobs gpu interp. Inr []),
      save_trk = (\<lambda>ss A dim vox t p. Inr ())\<rparr>"

text \<open>The numbers of the \<open>Processed n streamlines\<close> lines of a trace.\<close>

fun processed_counts :: "action list \<Rightarrow> nat list" where
  "processed_counts [] = []"
| "processed_counts (Processed n # as) = n # processed_counts as"
| "processed_counts (a # as) = processed_counts as"

text \<open>The files a trace removes.\<close>

fun removals :: "action list \<Rightarrow> string list" where
  "removals [] = []"
| "removals (Call (Os_remove p) # as) = p # removals as"
| "removals (a # as) = removals as"

text \<open>Collaborators whose \<open>nib.save\<close> raises whatever it is given.\<close>

definition save_always_raises :: "('v, 't) collaborators \<Rightarrow> bool" where
  "save_always_raises ext = (\<forall>v A p. nib_save ext v A p \<noteq> Inr ())"

text \<open>Collaborators for the examples that differ from \<open>quiet\<close> in that saving the volume raises.\<close>

definition full_disk :: "(int list, streamline list) collaborators" where
  "full_disk = quiet\<lparr>nib_save := (\<lambda>v A p. Inl (Error ''disk full''))\<rparr>"

section \<open>Properties of build_new_affine\<close>

lemma length_three: "length t = 3 \<Longrightarrow> \<exists>a b c. t = [a, b, c]"
  by (auto simp add: length_Suc_conv numeral_3_eq_3)

lemma valid_voxel_size_cases:
  "valid_voxel_size vs \<Longrightarrow> (\<exists>s. vs = Scalar s) \<or> (\<exists>a b c. vs = Tuple [a, b, c])"
  by (cases vs) (auto dest: length_three)

lemma broadcast3_valid:
  "valid_voxel_size vs \<Longrightarrow>
     broadcast3 (case vs of Scalar s \<Rightarrow> [s, s, s] | Tuple t \<Rightarrow> t) = Inr (per_axis vs)"
  by (auto dest!: valid_voxel_size_cases)

lemma linear_part_assemble: "linear_part (assemble R t) = R"
  by (cases R; cases t) auto

lemma matmul3_diag: "matmul3 R (diag s) = scale_columns R s"
  by (cases R; cases s) auto

lemma build_new_affine_nonzero:
  "build_new_affine old_affine old_shape vs new_shape pc = Inr A \<Longrightarrow>
     \<not> has_zero (col_norms (linear_part old_affine))"
  by (simp add: build_new_affine_def Let_def split: sum.splits if_splits)

lemma build_new_affine_linear:
  assumes "build_new_affine old_affine old_shape vs new_shape pc = Inr A"
    and "broadcast3 (case vs of Scalar s \<Rightarrow> [s, s, s] | Tuple t \<Rightarrow> t) = Inr nv"
  shows "linear_part A =
     matmul3 (linear_part old_affine) (diag (vdiv nv (col_norms (linear_part old_affine))))"
  using assms
  by (auto simp add: build_new_affine_def Let_def linear_part_assemble
      split: sum.splits if_splits)

lemma sqrt_scaled:
  "sqrt ((a * s)\<^sup>2 + (b * s)\<^sup>2 + (c * s)\<^sup>2) = \<bar>s\<bar> * sqrt (a\<^sup>2 + b\<^sup>2 + c\<^sup>2)"
proof -
  have "(a * s)\<^sup>2 + (b * s)\<^sup>2 + (c * s)\<^sup>2 = s\<^sup>2 * (a\<^sup>2 + b\<^sup>2 + c\<^sup>2)"
    by (simp add: power_mult_distrib algebra_simps)
  then show ?thesis by (simp add: real_sqrt_mult)
qed

lemma norm_scaled:
  assumes "sqrt (a\<^sup>2 + b\<^sup>2 + c\<^sup>2) \<noteq> 0"
  shows "sqrt ((a * (d / sqrt (a\<^sup>2 + b\<^sup>2 + c\<^sup>2)))\<^sup>2
     + (b * (d / sqrt (a\<^sup>2 + b\<^sup>2 + c\<^sup>2)))\<^sup>2
     + (c * (d / sqrt (a\<^sup>2 + b\<^sup>2 + c\<^sup>2)))\<^sup>2) = \<bar>d\<bar>"
proof -
  define n where "n = sqrt (a\<^sup>2 + b\<^sup>2 + c\<^sup>2)"
  have n0: "0 \<le> n" by (simp add: n_def)
  have "n \<noteq> 0" unfolding n_def by (rule assms)
  with n0 have npos: "0 < n" by linarith
  have "sqrt ((a * (d / n))\<^sup>2 + (b * (d / n))\<^sup>2 + (c * (d / n))\<^sup>2) = \<bar>d / n\<bar> * n"
    unfolding n_def by (rule sqrt_scaled)
  also have "\<dots> = \<bar>d\<bar>" using npos by (simp add: abs_divide)
  finally show ?thesis by (simp add: n_def)
qed

lemma col_norms_scale:
  "\<not> has_zero (col_norms R) \<Longrightarrow> col_norms (scale_columns R (vdiv d (col_norms R))) = vabs d"
  by (cases R; cases d) (auto simp add: norm_scaled simp del: times_divide_eq_right)

lemma vabs_nonneg: "nonneg3 v \<Longrightarrow> vabs v = v"
  by (cases v) auto

text \<open>
  C1. Whenever the voxel size is a number or a 3-tuple and no column of the old linear
  part has norm zero, build_new_affine returns an affine, and that affine maps the center
  index of the new grid, \<open>(new_shape - 1) / 2\<close>, to the chosen physical center: the patch
  center when one is given, otherwise the image of the old center index
  \<open>(old_shape - 1) / 2\<close> under the old affine. Over exact arithmetic the two points are
  equal.
\<close>

theorem build_new_affine_preserves_center:
  assumes "valid_voxel_size vs"
    and "\<not> has_zero (col_norms (linear_part old_affine))"
  shows "\<exists>A. build_new_affine old_affine [o0, o1, o2] vs [n0, n1, n2] (map_option as_tuple pc) = Inr A
     \<and> apply_affine A (grid_center (n0, n1, n2)) = chosen_center old_affine (o0, o1, o2) pc"
proof -
  from assms(1) consider s where "vs = Scalar s" | a b c where "vs = Tuple [a, b, c]"
    using valid_voxel_size_cases by blast
  then show ?thesis
  proof cases
    case 1
    show ?thesis
    proof (cases pc)
      case None
      then show ?thesis using assms(2) 1
        by (cases old_affine)
          (auto simp add: build_new_affine_def old_center_mm_def center_vox_def Let_def)
    next
      case (Some p)
      then show ?thesis using assms(2) 1
        by (cases old_affine; cases p)
          (auto simp add: build_new_affine_def old_center_mm_def center_vox_def Let_def)
    qed
  next
    case 2
    show ?thesis
    proof (cases pc)
      case None
      then show ?thesis using assms(2) 2
        by (cases old_affine)
          (auto simp add: build_new_affine_def old_center_mm_def center_vox_def Let_def)
    next
      case (Some p)
      then show ?thesis using assms(2) 2
        by (cases old_affine; cases p)
          (auto simp add: build_new_affine_def old_center_mm_def center_vox_def Let_def)
    qed
  qed
qed

theorem build_new_affine_preserves_center_witness:
  "valid_voxel_size (Tuple [1, 1, 1])
   \<and> \<not> has_zero (col_norms (linear_part ((2, 0, 0, 10), (0, 2, 0, 20), (0, 0, 2, 30), (0, 0, 0, 1))))
   \<and> (\<exists>A. build_new_affine ((2, 0, 0, 10), (0, 2, 0, 20), (0, 0, 2, 30), (0, 0, 0, 1))
             [4, 6, 8] (Tuple [1, 1, 1]) [8, 12, 16] (map_option as_tuple (Some (1, 2, 3))) = Inr A
          \<and> apply_affine A (grid_center (8, 12, 16))
              = chosen_center ((2, 0, 0, 10), (0, 2, 0, 20), (0, 0, 2, 30), (0, 0, 0, 1))
                  (4, 6, 8) (Some (1, 2, 3)))"
proof -
  have h1: "valid_voxel_size (Tuple [1, 1, 1])" by simp
  have h2: "\<not> has_zero (col_norms (linear_part
      ((2, 0, 0, 10), (0, 2, 0, 20), (0, 0, 2, 30), (0, 0, 0, 1))))" by simp
  show ?thesis
    using h1 h2 build_new_affine_preserves_center [OF h1 h2, of 4 6 8 8 12 16 "Some (1, 2, 3)"]
    by blast
qed

text \<open>
  C4. Whenever build_new_affine returns an affine for a voxel size that is a number or a
  3-tuple, the linear part of that affine is \<open>old_linear @ diag(scale_factor)\<close>, where the
  scale factor of an axis is the voxel size asked for along it divided by the norm of the
  matching column of the old linear part; entry by entry, each column of the old linear
  part multiplied by its factor. (An affine is returned only when no column norm is zero.)
\<close>

theorem build_new_affine_linear_part:
  assumes "build_new_affine old_affine old_shape vs new_shape pc = Inr A"
    and "valid_voxel_size vs"
  shows "linear_part A = matmul3 (linear_part old_affine)
            (diag (vdiv (per_axis vs) (col_norms (linear_part old_affine))))
       \<and> linear_part A = scale_columns (linear_part old_affine)
            (vdiv (per_axis vs) (col_norms (linear_part old_affine)))"
  using build_new_affine_linear [OF assms(1) broadcast3_valid [OF assms(2)]]
  by (simp add: matmul3_diag)

theorem build_new_affine_linear_part_witness:
  "build_new_affine ((2, 0, 0, 10), (0, 2, 0, 20), (0, 0, 2, 30), (0, 0, 0, 1))
      [4, 6, 8] (Scalar 1) [8, 12, 16] None
     = Inr ((1, 0, 0, 19 / 2), (0, 1, 0, 39 / 2), (0, 0, 1, 59 / 2), (0, 0, 0, 1))
   \<and> valid_voxel_size (Scalar 1)
   \<and> linear_part ((1, 0, 0, 19 / 2), (0, 1, 0, 39 / 2), (0, 0, 1, 59 / 2), (0, 0, 0, 1))
       = scale_columns (linear_part ((2, 0, 0, 10), (0, 2, 0, 20), (0, 0, 2, 30), (0, 0, 0, 1)))
           (vdiv (per_axis (Scalar 1))
              (col_norms (linear_part ((2, 0, 0, 10), (0, 2, 0, 20), (0, 0, 2, 30), (0, 0, 0, 1)))))"
proof -
  have h1: "build_new_affine ((2, 0, 0, 10), (0, 2, 0, 20), (0, 0, 2, 30), (0, 0, 0, 1))
      [4, 6, 8] (Scalar 1) [8, 12, 16] None
     = Inr ((1, 0, 0, 19 / 2), (0, 1, 0, 39 / 2), (0, 0, 1, 59 / 2), (0, 0, 0, 1))"
    by (simp add: build_new_affine_def old_center_mm_def center_vox_def)
  have h2: "valid_voxel_size (Scalar 1)" by simp
  show ?thesis using h1 h2 build_new_affine_linear_part [OF h1 h2] by blast
qed

text \<open>
  C5, as the code has it. Whenever build_new_affine returns an affine for a voxel size
  that is a number or a 3-tuple, the column norms of its linear part are the absolute
  values of the voxel sizes asked for; they are the voxel sizes themselves when none of
  them is negative. The function accepts a negative voxel size and then returns an affine
  whose column norms are positive, so the norms do not equal the sizes asked for on
  every input.
\<close>

theorem build_new_affine_col_norms:
  assumes "build_new_affine old_affine old_shape vs new_shape pc = Inr A"
    and "valid_voxel_size vs"
  shows "col_norms (linear_part A) = vabs (per_axis vs)
       \<and> (nonneg3 (per_axis vs) \<longrightarrow> col_norms (linear_part A) = per_axis vs)"
  using build_new_affine_linear [OF assms(1) broadcast3_valid [OF assms(2)]]
    build_new_affine_nonzero [OF assms(1)]
  by (simp add: matmul3_diag col_norms_scale vabs_nonneg)

theorem build_new_affine_col_norms_witness:
  "build_new_affine ((2, 0, 0, 10), (0, 2, 0, 20), (0, 0, 2, 30), (0, 0, 0, 1))
      [4, 6, 8] (Tuple [1, 3, 5]) [8, 12, 16] None
     = Inr ((1, 0, 0, 19 / 2), (0, 3, 0, 17 / 2), (0, 0, 5, - 1 / 2), (0, 0, 0, 1))
   \<and> valid_voxel_size (Tuple [1, 3, 5])
   \<and> nonneg3 (per_axis (Tuple [1, 3, 5]))
   \<and> col_norms (linear_part ((1, 0, 0, 19 / 2), (0, 3, 0, 17 / 2), (0, 0, 5, - 1 / 2), (0, 0, 0, 1)))
       = per_axis (Tuple [1, 3, 5])"
proof -
  have h1: "build_new_affine ((2, 0, 0, 10), (0, 2, 0, 20), (0, 0, 2, 30), (0, 0, 0, 1))
      [4, 6, 8] (Tuple [1, 3, 5]) [8, 12, 16] None
     = Inr ((1, 0, 0, 19 / 2), (0, 3, 0, 17 / 2), (0, 0, 5, - 1 / 2), (0, 0, 0, 1))"
    by (simp add: build_new_affine_def old_center_mm_def center_vox_def)
  have h2: "valid_voxel_size (Tuple [1, 3, 5])" by simp
  have h3: "nonneg3 (per_axis (Tuple [1, 3, 5]))" by simp
  show ?thesis using h1 h2 h3 build_new_affine_col_norms [OF h1 h2] by blast
qed

text \<open>
  C5 as stated fails at the voxel size -1: the affine returned has column norms 1.
\<close>

theorem build_new_affine_col_norms_counterexample:
  "build_new_affine ((2, 0, 0, 10), (0, 2, 0, 20), (0, 0, 2, 30), (0, 0, 0, 1))
      [4, 6, 8] (Scalar (- 1)) [8, 12, 16] None
     = Inr ((- 1, 0, 0, 33 / 2), (0, - 1, 0, 61 / 2), (0, 0, - 1, 89 / 2), (0, 0, 0, 1))
   \<and> col_norms (linear_part
        ((- 1, 0, 0, 33 / 2), (0, - 1, 0, 61 / 2), (0, 0, - 1, 89 / 2), (0, 0, 0, 1)))
       \<noteq> per_axis (Scalar (- 1))"
  by (simp add: build_new_affine_def old_center_mm_def center_vox_def)

text \<open>
  C6. A voxel size given as one number s yields the same result, affine or error, as the
  tuple (s, s, s), all other arguments being equal.
\<close>

theorem build_new_affine_scalar_isotropic:
  "build_new_affine old_affine old_shape (Scalar s) new_shape patch_center_mm
     = build_new_affine old_affine old_shape (Tuple [s, s, s]) new_shape patch_center_mm"
  by (simp add: build_new_affine_def)

section \<open>Properties of process_streamlines_with_method\<close>

lemma logged_errors_append: "logged_errors (xs @ ys) = logged_errors xs @ logged_errors ys"
  by (induction xs rule: logged_errors.induct) auto
lemma passed_steps_append: "passed_steps (xs @ ys) = passed_steps xs @ passed_steps ys"
  by (induction xs rule: passed_steps.induct) auto
lemma env_at_env_at: "env_at (env_at env i) j = env_at env j"
  by (simp add: env_at_def)

lemma succeeded_env_at:
  "succeeded d step meth vs gpu (env_at env i) j ss = succeeded d step meth vs gpu env j ss"
  by (induction ss arbitrary: j) (simp_all add: env_at_env_at split: sum.splits raised.splits)

lemma failed_env_at:
  "failed d step meth vs gpu (env_at env i) j ss = failed d step meth vs gpu env j ss"
  by (induction ss arbitrary: j) (simp_all add: env_at_env_at split: sum.splits raised.splits)

lemma flags_at_calls_append:
  "flags_at_calls cur (xs @ ys) = flags_at_calls cur xs @ flags_at_calls (last_flag cur xs) ys"
  by (induction cur xs rule: flags_at_calls.induct) auto

lemma process_loop_Cons:
  "process_loop d step meth vs gpu n idx (s # ss) processed st =
     (case d (environ (at_call step meth vs gpu n idx s st)) s (step * (vs / 1)) gpu meth vs of
        Inr densified \<Rightarrow>
          process_loop d step meth vs gpu n (Suc idx) ss (processed @ [densified])
            (at_call step meth vs gpu n idx s st)
      | Inl (Error e) \<Rightarrow>
          process_loop d step meth vs gpu n (Suc idx) ss processed
            (emit (Print (Error_processing_streamline idx e)) (at_call step meth vs gpu n idx s st))
      | Inl Interrupt \<Rightarrow> (Inl Interrupt, at_call step meth vs gpu n idx s st))"
  unfolding at_call_def process_loop.simps Let_def by (rule refl)

lemma environ_at_call: "environ (at_call step meth vs gpu n idx s st) = env_at (environ st) idx"
  by (simp add: at_call_def emit_def setenv_def env_at_def debug_flag_def)

lemma trace_at_call:
  "\<exists>new. trace (at_call step meth vs gpu n idx s st) = trace st @ new
     \<and> logged_errors new = []
     \<and> passed_steps new = [step * vs]
     \<and> flags_at_calls cur new = [Some (debug_flag idx)]
     \<and> last_flag cur new = Some (debug_flag idx)"
  by (simp add: at_call_def emit_def setenv_def debug_flag_def)

lemma environ_emit: "environ (emit e st) = environ st"
  by (simp add: emit_def)

lemma trace_emit: "trace (emit e st) = trace st @ [e]"
  by (simp add: emit_def)

lemma process_loop_steps:
  "\<exists>new k. trace (snd (process_loop d step meth vs gpu n idx streams processed st)) = trace st @ new
     \<and> k \<le> length streams \<and> passed_steps new = replicate k (step * vs)"
proof (induction streams arbitrary: idx processed st)
  case Nil
  show ?case by simp
next
  case (Cons s ss)
  define st4 where "st4 = at_call step meth vs gpu n idx s st"
  obtain new4 where t4: "trace st4 = trace st @ new4" "passed_steps new4 = [step * vs]"
    using trace_at_call[of step meth vs gpu n idx s st] unfolding st4_def by blast
  show ?case
  proof (cases "d (environ st4) s (step * (vs / 1)) gpu meth vs")
    case (Inr y)
    from Cons.IH[of "Suc idx" "processed @ [y]" st4] obtain new k where
      "trace (snd (process_loop d step meth vs gpu n (Suc idx) ss (processed @ [y]) st4)) = trace st4 @ new"
      "k \<le> length ss" "passed_steps new = replicate k (step * vs)" by blast
    then have "trace (snd (process_loop d step meth vs gpu n idx (s # ss) processed st)) = trace st @ (new4 @ new)
       \<and> Suc k \<le> length (s # ss) \<and> passed_steps (new4 @ new) = replicate (Suc k) (step * vs)"
      using Inr t4 unfolding process_loop_Cons st4_def[symmetric] by (simp add: passed_steps_append)
    then show ?thesis by blast
  next
    case (Inl e)
    show ?thesis
    proof (cases e)
      case (Error msg)
      define st5 where "st5 = emit (Print (Error_processing_streamline idx msg)) st4"
      from Cons.IH[of "Suc idx" processed st5] obtain new k where
        "trace (snd (process_loop d step meth vs gpu n (Suc idx) ss processed st5)) = trace st5 @ new"
        "k \<le> length ss" "passed_steps new = replicate k (step * vs)" by blast
      then have "trace (snd (process_loop d step meth vs gpu n idx (s # ss) processed st))
           = trace st @ (new4 @ [Print (Error_processing_streamline idx msg)] @ new)
         \<and> Suc k \<le> length (s # ss)
         \<and> passed_steps (new4 @ [Print (Error_processing_streamline idx msg)] @ new) = replicate (Suc k) (step * vs)"
        using Inl Error t4 unfolding process_loop_Cons st4_def[symmetric] st5_def[symmetric]
        by (simp add: passed_steps_append st5_def trace_emit)
      then show ?thesis by blast
    next
      case Interrupt
      have "trace (snd (process_loop d step meth vs gpu n idx (s # ss) processed st)) = trace st @ new4
         \<and> Suc 0 \<le> length (s # ss) \<and> passed_steps new4 = replicate (Suc 0) (step * vs)"
        using Inl Interrupt t4 unfolding process_loop_Cons st4_def[symmetric] by simp
      then show ?thesis by blast
    qed
  qed
qed

lemma process_loop_result:
  assumes "\<And>env s st g m v. d env s st g m v \<noteq> Inl Interrupt"
  shows "\<exists>st' new. process_loop d step meth vs gpu n idx streams processed st
      = (Inr (processed @ succeeded d step meth vs gpu (environ st) idx streams), st')
     \<and> trace st' = trace st @ new
     \<and> logged_errors new = failed d step meth vs gpu (environ st) idx streams
     \<and> passed_steps new = replicate (length streams) (step * vs)
     \<and> flags_at_calls cur new = map (\<lambda>i. Some (debug_flag i)) [idx ..< idx + length streams]"
proof (induction streams arbitrary: idx processed st cur)
  case Nil
  then show ?case by simp
next
  case (Cons s ss)
  define st4 where "st4 = at_call step meth vs gpu n idx s st"
  have env4: "environ st4 = env_at (environ st) idx" by (simp add: st4_def environ_at_call)
  obtain new4 where t4: "trace st4 = trace st @ new4" "logged_errors new4 = []"
    "passed_steps new4 = [step * vs]" "flags_at_calls cur new4 = [Some (debug_flag idx)]"
    using trace_at_call[of step meth vs gpu n idx s st cur] unfolding st4_def by blast
  have upt: "[idx ..< idx + length (s # ss)] = idx # [Suc idx ..< Suc idx + length ss]"
    by (subst upt_rec) simp
  show ?case
  proof (cases "d (env_at (environ st) idx) s (step * vs) gpu meth vs")
    case (Inr y)
    from Cons.IH[of "Suc idx" "processed @ [y]" st4 "last_flag cur new4"] obtain st' new where
      "process_loop d step meth vs gpu n (Suc idx) ss (processed @ [y]) st4
        = (Inr ((processed @ [y]) @ succeeded d step meth vs gpu (environ st4) (Suc idx) ss), st')"
      "trace st' = trace st4 @ new"
      "logged_errors new = failed d step meth vs gpu (environ st4) (Suc idx) ss"
      "passed_steps new = replicate (length ss) (step * vs)"
      "flags_at_calls (last_flag cur new4) new = map (\<lambda>i. Some (debug_flag i)) [Suc idx ..< Suc idx + length ss]"
      by blast
    then have "process_loop d step meth vs gpu n idx (s # ss) processed st
        = (Inr (processed @ succeeded d step meth vs gpu (environ st) idx (s # ss)), st')
      \<and> trace st' = trace st @ (new4 @ new)
      \<and> logged_errors (new4 @ new) = failed d step meth vs gpu (environ st) idx (s # ss)
      \<and> passed_steps (new4 @ new) = replicate (length (s # ss)) (step * vs)
      \<and> flags_at_calls cur (new4 @ new) = map (\<lambda>i. Some (debug_flag i)) [idx ..< idx + length (s # ss)]"
      using Inr t4 unfolding process_loop_Cons st4_def[symmetric] upt
      by (simp add: env4 succeeded_env_at failed_env_at logged_errors_append passed_steps_append
          flags_at_calls_append del: upt_Suc)
    then show ?thesis by blast
  next
    case (Inl e)
    with assms obtain msg where e: "e = Error msg" by (cases e) auto
    define st5 where "st5 = emit (Print (Error_processing_streamline idx msg)) st4"
    from Cons.IH[of "Suc idx" processed st5 "last_flag cur new4"] obtain st' new where
      "process_loop d step meth vs gpu n (Suc idx) ss processed st5
        = (Inr (processed @ succeeded d step meth vs gpu (environ st5) (Suc idx) ss), st')"
      "trace st' = trace st5 @ new"
      "logged_errors new = failed d step meth vs gpu (environ st5) (Suc idx) ss"
      "passed_steps new = replicate (length ss) (step * vs)"
      "flags_at_calls (last_flag cur new4) new = map (\<lambda>i. Some (debug_flag i)) [Suc idx ..< Suc idx + length ss]"
      by blast
    then have "process_loop d step meth vs gpu n idx (s # ss) processed st
        = (Inr (processed @ succeeded d step meth vs gpu (environ st) idx (s # ss)), st')
      \<and> trace st' = trace st @ (new4 @ [Print (Error_processing_streamline idx msg)] @ new)
      \<and> logged_errors (new4 @ [Print (Error_processing_streamline idx msg)] @ new)
          = failed d step meth vs gpu (environ st) idx (s # ss)
      \<and> passed_steps (new4 @ [Print (Error_processing_streamline idx msg)] @ new)
          = replicate (length (s # ss)) (step * vs)
      \<and> flags_at_calls cur (new4 @ [Print (Error_processing_streamline idx msg)] @ new)
          = map (\<lambda>i. Some (debug_flag i)) [idx ..< idx + length (s # ss)]"
      using Inl e t4 unfolding process_loop_Cons st4_def[symmetric] upt
      by (simp add: st5_def environ_emit trace_emit env4 succeeded_env_at failed_env_at
          logged_errors_append passed_steps_append flags_at_calls_append del: upt_Suc)
    then show ?thesis by blast
  qed
qed

lemma succeeded_failed_length:
  assumes "\<And>env s st g m v. d env s st g m v \<noteq> Inl Interrupt"
  shows "length (succeeded d step meth vs gpu env idx streams)
       + length (failed d step meth vs gpu env idx streams) = length streams"
proof (induction streams arbitrary: idx)
  case Nil
  show ?case by simp
next
  case (Cons s ss)
  show ?case
  proof (cases "d (env_at env idx) s (step * vs) gpu meth vs")
    case (Inr y)
    then show ?thesis using Cons.IH[of "Suc idx"] by simp
  next
    case (Inl e)
    with assms obtain msg where "e = Error msg" by (cases e) auto
    then show ?thesis using Inl Cons.IH[of "Suc idx"] by simp
  qed
qed

lemma process_streamlines_run:
  assumes "\<And>env s st g m v. d env s st g m v \<noteq> Inl Interrupt"
  shows "\<exists>st' new. process_streamlines_with_method d streams step meth vs gpu env
      = (Inr (succeeded d step meth vs gpu env 0 streams), st')
     \<and> trace st' = Print (Processing_streamlines (length streams) meth vs) # new
         @ [Print (Processed_streamlines (length (succeeded d step meth vs gpu env 0 streams))
              (length streams) meth)]
     \<and> logged_errors new = failed d step meth vs gpu env 0 streams
     \<and> passed_steps new = replicate (length streams) (step * vs)
     \<and> flags_at_calls cur new = map (\<lambda>i. Some (debug_flag i)) [0 ..< length streams]"
proof -
  define st0 where "st0 = emit (Print (Processing_streamlines (length streams) meth vs))
                  \<lparr>environ = env, trace = []\<rparr>"
  have e0: "environ st0 = env" and t0: "trace st0 = [Print (Processing_streamlines (length streams) meth vs)]"
    by (simp_all add: st0_def emit_def)
  from process_loop_result[where d=d and step=step and meth=meth and vs=vs and gpu=gpu
      and n="length streams" and idx=0 and streams=streams and processed="[]" and st=st0 and cur=cur,
      OF assms]
  obtain st' new where r:
    "process_loop d step meth vs gpu (length streams) 0 streams [] st0
      = (Inr (succeeded d step meth vs gpu env 0 streams), st')"
    "trace st' = trace st0 @ new"
    "logged_errors new = failed d step meth vs gpu env 0 streams"
    "passed_steps new = replicate (length streams) (step * vs)"
    "flags_at_calls cur new = map (\<lambda>i. Some (debug_flag i)) [0 ..< length streams]"
    by (auto simp add: e0)
  have "process_streamlines_with_method d streams step meth vs gpu env
      = (Inr (succeeded d step meth vs gpu env 0 streams),
         emit (Print (Processed_streamlines (length (succeeded d step meth vs gpu env 0 streams))
              (length streams) meth)) st')"
    unfolding process_streamlines_with_method_def Let_def st0_def[symmetric] r(1) by simp
  moreover have "trace (emit (Print (Processed_streamlines (length (succeeded d step meth vs gpu env 0 streams))
              (length streams) meth)) st') = Print (Processing_streamlines (length streams) meth vs) # new
         @ [Print (Processed_streamlines (length (succeeded d step meth vs gpu env 0 streams))
              (length streams) meth)]"
    by (simp add: trace_emit r(2) t0)
  ultimately show ?thesis using r(3,4,5) by blast
qed

lemma keep_long_no_interrupt: "keep_long env s st g m v \<noteq> Inl Interrupt"
  by (simp add: keep_long_def)

lemma hermite_segments_points:
  "map fst (hermite_segments debug ps step) = map fst (hermite_segments debug' ps step)"
  by (simp add: hermite_segments_def hermite_segment_def Let_def)

lemma densify_points_any_environment:
  "fst (densify_streamline_subvoxel env s step gpu m v)
     = fst (densify_streamline_subvoxel env' s step gpu m v)"
  using hermite_segments_points [of "debug_tangents env" s step "debug_tangents env'"]
  by (simp add: densify_streamline_subvoxel_def Let_def)

text \<open>
  C3, as the code has it. The step size the driver passes to the densifier is the
  configured step size multiplied by the voxel size, \<open>step_size * (voxel_size / 1.0)\<close>, in
  every call it makes; when the densifier raises nothing but instances of
  \<open>Exception\<close>, the driver makes one such call for each streamline of the batch.
\<close>

theorem scaled_step_size_passed:
  "(\<exists>k\<le>length streams.
       passed_steps (trace (snd (process_streamlines_with_method d streams step meth vs gpu env)))
         = replicate k (step * vs))
   \<and> ((\<forall>env s st g m v. d env s st g m v \<noteq> Inl Interrupt) \<longrightarrow>
       passed_steps (trace (snd (process_streamlines_with_method d streams step meth vs gpu env)))
         = replicate (length streams) (step * vs))"
proof
  define st0 where "st0 = emit (Print (Processing_streamlines (length streams) meth vs))
                  \<lparr>environ = env, trace = []\<rparr>"
  have t0: "trace st0 = [Print (Processing_streamlines (length streams) meth vs)]"
    by (simp add: st0_def emit_def)
  obtain new k where r:
    "trace (snd (process_loop d step meth vs gpu (length streams) 0 streams [] st0)) = trace st0 @ new"
    "k \<le> length streams" "passed_steps new = replicate k (step * vs)"
    using process_loop_steps[of d step meth vs gpu "length streams" 0 streams "[]" st0] by blast
  obtain res st1 where p: "process_loop d step meth vs gpu (length streams) 0 streams [] st0 = (res, st1)"
    by (cases "process_loop d step meth vs gpu (length streams) 0 streams [] st0") auto
  have "passed_steps (trace (snd (process_streamlines_with_method d streams step meth vs gpu env)))
         = replicate k (step * vs)"
    using r p t0 unfolding process_streamlines_with_method_def Let_def st0_def[symmetric]
    by (cases res) (simp_all add: trace_emit passed_steps_append)
  with r(2) show "\<exists>k\<le>length streams.
       passed_steps (trace (snd (process_streamlines_with_method d streams step meth vs gpu env)))
         = replicate k (step * vs)" by blast
next
  show "(\<forall>env s st g m v. d env s st g m v \<noteq> Inl Interrupt) \<longrightarrow>
       passed_steps (trace (snd (process_streamlines_with_method d streams step meth vs gpu env)))
         = replicate (length streams) (step * vs)"
  proof
    assume a: "\<forall>env s st g m v. d env s st g m v \<noteq> Inl Interrupt"
    then have a': "\<And>env s st g m v. d env s st g m v \<noteq> Inl Interrupt" by blast
    from process_streamlines_run[where d=d and streams=streams and step=step and meth=meth
      and vs=vs and gpu=gpu and env=env and cur=None, OF a']
    obtain st' new where r:
      "process_streamlines_with_method d streams step meth vs gpu env
        = (Inr (succeeded d step meth vs gpu env 0 streams), st')"
      "trace st' = Print (Processing_streamlines (length streams) meth vs) # new
           @ [Print (Processed_streamlines (length (succeeded d step meth vs gpu env 0 streams))
                (length streams) meth)]"
      "passed_steps new = replicate (length streams) (step * vs)"
      by blast
    show "passed_steps (trace (snd (process_streamlines_with_method d streams step meth vs gpu env)))
         = replicate (length streams) (step * vs)"
      by (simp add: r passed_steps_append)
  qed
qed

theorem scaled_step_size_passed_witness:
  "(\<forall>env s st g m v. keep_long env s st g m v \<noteq> Inl Interrupt)
   \<and> passed_steps (trace (snd (process_streamlines_with_method keep_long
        [[(0, 0, 0), (1, 0, 0)], [(5, 5, 5)], [(2, 0, 0), (3, 0, 0)]] 1 ''linear'' 2 False Map.empty)))
       = [2, 2, 2]"
proof -
  have h: "\<forall>env s st g m v. keep_long env s st g m v \<noteq> Inl Interrupt"
    by (simp add: keep_long_def)
  have "passed_steps (trace (snd (process_streamlines_with_method keep_long
        [[(0, 0, 0), (1, 0, 0)], [(5, 5, 5)], [(2, 0, 0), (3, 0, 0)]] 1 ''linear'' 2 False Map.empty)))
       = replicate (length [[(0, 0, 0), (1, 0, 0)], [(5, 5, 5)], [(2, 0, 0), (3::real, 0::real, 0::real)]]) (1 * 2)"
    using h scaled_step_size_passed [of "[[(0, 0, 0), (1, 0, 0)], [(5, 5, 5)], [(2, 0, 0), (3, 0, 0)]]"
        keep_long 1 "''linear''" 2 False Map.empty]
    by blast
  then show ?thesis using h by simp
qed

text \<open>
  C3 as stated fails at step size 1 and voxel size 2: the densifier is called with the
  step size 2, not with 1 / 2.
\<close>

theorem scaled_step_size_passed_counterexample:
  "passed_steps (trace (snd (process_streamlines_with_method keep_long
      [[(0, 0, 0), (1, 0, 0)]] 1 ''linear'' 2 False Map.empty))) = [2]
   \<and> (2 :: real) \<noteq> 1 / 2"
  by (simp add: process_streamlines_with_method_def keep_long_def emit_def setenv_def)

text \<open>
  C7. When the densifier raises nothing but instances of \<open>Exception\<close>, the driver
  returns, for every batch, exactly the streamlines the densifier returned a result for,
  densified and in the order of the batch; it prints one error line, with the index of the
  streamline and the message, for each streamline the densifier raised for, in order; every
  streamline is either returned or reported, so the returned list is never longer than the
  batch.
\<close>

theorem skip_and_log:
  assumes "\<And>env s st g m v. d env s st g m v \<noteq> Inl Interrupt"
  shows "fst (process_streamlines_with_method d streams step meth vs gpu env)
           = Inr (succeeded d step meth vs gpu env 0 streams)
       \<and> logged_errors (trace (snd (process_streamlines_with_method d streams step meth vs gpu env)))
           = failed d step meth vs gpu env 0 streams
       \<and> length (succeeded d step meth vs gpu env 0 streams)
           + length (failed d step meth vs gpu env 0 streams) = length streams
       \<and> length (succeeded d step meth vs gpu env 0 streams) \<le> length streams"
proof -
  from process_streamlines_run[where d=d and streams=streams and step=step and meth=meth
      and vs=vs and gpu=gpu and env=env and cur=None, OF assms]
  obtain st' new where r:
    "process_streamlines_with_method d streams step meth vs gpu env
      = (Inr (succeeded d step meth vs gpu env 0 streams), st')"
    "trace st' = Print (Processing_streamlines (length streams) meth vs) # new
         @ [Print (Processed_streamlines (length (succeeded d step meth vs gpu env 0 streams))
              (length streams) meth)]"
    "logged_errors new = failed d step meth vs gpu env 0 streams"
    by blast
  have "logged_errors (trace st') = failed d step meth vs gpu env 0 streams"
    by (simp add: r(2,3) logged_errors_append)
  moreover have "length (succeeded d step meth vs gpu env 0 streams)
           + length (failed d step meth vs gpu env 0 streams) = length streams"
    by (rule succeeded_failed_length[OF assms])
  ultimately show ?thesis using r(1) by simp
qed

theorem skip_and_log_witness:
  "(\<forall>env s st g m v. keep_long env s st g m v \<noteq> Inl Interrupt)
   \<and> fst (process_streamlines_with_method keep_long
        [[(0, 0, 0), (1, 0, 0)], [(5, 5, 5)], [(2, 0, 0), (3, 0, 0)]] 1 ''linear'' 2 False Map.empty)
       = Inr [[(0, 0, 0), (1, 0, 0)], [(2, 0, 0), (3, 0, 0)]]
   \<and> logged_errors (trace (snd (process_streamlines_with_method keep_long
        [[(0, 0, 0), (1, 0, 0)], [(5, 5, 5)], [(2, 0, 0), (3, 0, 0)]] 1 ''linear'' 2 False Map.empty)))
       = [(1, ''too short'')]"
  using skip_and_log [of keep_long, OF keep_long_no_interrupt,
      of "[[(0, 0, 0), (1, 0, 0)], [(5, 5, 5)], [(2, 0, 0), (3, 0, 0)]]" 1 "''linear''" 2 False Map.empty]
  by (simp add: keep_long_def)

lemma succeeded_enumerate:
  "succeeded d step meth vs gpu env idx streams
     = List.map_filter
         (\<lambda>(i, s). case d (env(''DEBUG_TANGENTS'' \<mapsto> (if i < 5 then ''1'' else ''0''))) s
                        (step * vs) gpu meth vs of
                     Inr y \<Rightarrow> Some y | Inl e \<Rightarrow> None)
         (enumerate idx streams)"
  by (induction streams arbitrary: idx)
     (simp_all add: List.map_filter_simps env_at_def debug_flag_def split: sum.splits)

lemma process_loop_environ:
  assumes "\<And>env s st g m v. d env s st g m v \<noteq> Inl Interrupt"
  shows "environ (snd (process_loop d step meth vs gpu n idx streams processed st))
     = (if streams = [] then environ st else env_at (environ st) (idx + length streams - 1))"
proof (induction streams arbitrary: idx processed st)
  case Nil
  show ?case by simp
next
  case (Cons s ss)
  define st4 where "st4 = at_call step meth vs gpu n idx s st"
  have env4: "environ st4 = env_at (environ st) idx" by (simp add: st4_def environ_at_call)
  show ?case
  proof (cases "d (environ st4) s (step * (vs / 1)) gpu meth vs")
    case (Inr y)
    have "process_loop d step meth vs gpu n idx (s # ss) processed st
        = process_loop d step meth vs gpu n (Suc idx) ss (processed @ [y]) st4"
      using Inr unfolding process_loop_Cons st4_def[symmetric] by simp
    then show ?thesis
      using Cons.IH[of "Suc idx" "processed @ [y]" st4]
      by (simp add: env4 env_at_env_at del: process_loop.simps)
  next
    case (Inl e)
    with assms obtain msg where e: "e = Error msg" by (cases e) auto
    have "process_loop d step meth vs gpu n idx (s # ss) processed st
        = process_loop d step meth vs gpu n (Suc idx) ss processed
            (emit (Print (Error_processing_streamline idx msg)) st4)"
      using Inl e unfolding process_loop_Cons st4_def[symmetric] by simp
    then show ?thesis
      using Cons.IH[of "Suc idx" processed "emit (Print (Error_processing_streamline idx msg)) st4"]
      by (simp add: env4 environ_emit env_at_env_at del: process_loop.simps)
  qed
qed

lemma process_streamlines_environ:
  assumes "\<And>env s st g m v. d env s st g m v \<noteq> Inl Interrupt"
  shows "environ (snd (process_streamlines_with_method d streams step meth vs gpu env))
     = (if streams = [] then env
        else env(''DEBUG_TANGENTS'' \<mapsto> (if length streams - 1 < 5 then ''1'' else ''0'')))"
proof -
  define st0 where "st0 = emit (Print (Processing_streamlines (length streams) meth vs))
                  \<lparr>environ = env, trace = []\<rparr>"
  have e0: "environ st0 = env" by (simp add: st0_def emit_def)
  obtain r st1 where p: "process_loop d step meth vs gpu (length streams) 0 streams [] st0 = (r, st1)"
    by (cases "process_loop d step meth vs gpu (length streams) 0 streams [] st0") auto
  have "environ st1 = (if streams = [] then env else env_at env (length streams - 1))"
    using process_loop_environ[where d=d and step=step and meth=meth and vs=vs and gpu=gpu
        and n="length streams" and idx=0 and streams=streams and processed="[]" and st=st0, OF assms]
    by (simp add: p e0)
  moreover have "environ (snd (process_streamlines_with_method d streams step meth vs gpu env))
      = environ st1"
    unfolding process_streamlines_with_method_def Let_def st0_def[symmetric] p
    by (cases r) (simp_all add: environ_emit)
  ultimately show ?thesis by (simp add: env_at_def debug_flag_def)
qed

text \<open>
  C10. When the densifier raises nothing but instances of \<open>Exception\<close>, the driver
  calls it for the streamline of index i in the environment in which
  \<open>DEBUG_TANGENTS\<close> is "1" when i is below 5 and "0" otherwise: the result of the
  driver is what the densifier returns in these environments, and the same holds of the
  value of the variable at each call as the trace orders writes and calls. After the run
  the variable has the value written for the last streamline. And the points the densifier
  returns do not depend on the environment it runs in, so they are the same with the flag
  at "1" and at "0".
\<close>

theorem debug_flag_first_five:
  assumes "\<And>env s st g m v. d env s st g m v \<noteq> Inl Interrupt"
  shows "fst (process_streamlines_with_method d streams step meth vs gpu env)
         = Inr (List.map_filter
             (\<lambda>(i, s). case d (env(''DEBUG_TANGENTS'' \<mapsto> (if i < 5 then ''1'' else ''0''))) s
                            (step * vs) gpu meth vs of
                         Inr y \<Rightarrow> Some y | Inl e \<Rightarrow> None)
             (enumerate 0 streams))
       \<and> environ (snd (process_streamlines_with_method d streams step meth vs gpu env))
         = (if streams = [] then env
            else env(''DEBUG_TANGENTS'' \<mapsto> (if length streams - 1 < 5 then ''1'' else ''0'')))
       \<and> flags_at_calls (env ''DEBUG_TANGENTS'')
           (trace (snd (process_streamlines_with_method d streams step meth vs gpu env)))
         = map (\<lambda>i. Some (if i < 5 then ''1'' else ''0'')) [0 ..< length streams]
       \<and> fst (densify_streamline_subvoxel (e(''DEBUG_TANGENTS'' \<mapsto> ''1'')) s step' g m v)
         = fst (densify_streamline_subvoxel (e(''DEBUG_TANGENTS'' \<mapsto> ''0'')) s step' g m v)"
proof (intro conjI)
  from process_streamlines_run [where d=d and streams=streams and step=step and meth=meth
      and vs=vs and gpu=gpu and env=env and cur="env ''DEBUG_TANGENTS''", OF assms]
  obtain st' new where r:
    "process_streamlines_with_method d streams step meth vs gpu env
      = (Inr (succeeded d step meth vs gpu env 0 streams), st')"
    "trace st' = Print (Processing_streamlines (length streams) meth vs) # new
         @ [Print (Processed_streamlines (length (succeeded d step meth vs gpu env 0 streams))
              (length streams) meth)]"
    "flags_at_calls (env ''DEBUG_TANGENTS'') new
       = map (\<lambda>i. Some (debug_flag i)) [0 ..< length streams]"
    by blast
  show "fst (process_streamlines_with_method d streams step meth vs gpu env)
         = Inr (List.map_filter
             (\<lambda>(i, s). case d (env(''DEBUG_TANGENTS'' \<mapsto> (if i < 5 then ''1'' else ''0''))) s
                            (step * vs) gpu meth vs of
                         Inr y \<Rightarrow> Some y | Inl e \<Rightarrow> None)
             (enumerate 0 streams))"
    unfolding r(1) succeeded_enumerate by simp
  show "flags_at_calls (env ''DEBUG_TANGENTS'')
           (trace (snd (process_streamlines_with_method d streams step meth vs gpu env)))
         = map (\<lambda>i. Some (if i < 5 then ''1'' else ''0'')) [0 ..< length streams]"
    by (simp add: r flags_at_calls_append debug_flag_def)
next
  show "environ (snd (process_streamlines_with_method d streams step meth vs gpu env))
         = (if streams = [] then env
            else env(''DEBUG_TANGENTS'' \<mapsto> (if length streams - 1 < 5 then ''1'' else ''0'')))"
    by (rule process_streamlines_environ [OF assms])
next
  show "fst (densify_streamline_subvoxel (e(''DEBUG_TANGENTS'' \<mapsto> ''1'')) s step' g m v)
         = fst (densify_streamline_subvoxel (e(''DEBUG_TANGENTS'' \<mapsto> ''0'')) s step' g m v)"
    by (rule densify_points_any_environment)
qed

lemma flag_probe_no_interrupt: "flag_probe env s st g m v \<noteq> Inl Interrupt"
  by (simp add: flag_probe_def)

theorem debug_flag_first_five_witness:
  "(\<forall>env s st g m v. flag_probe env s st g m v \<noteq> Inl Interrupt)
   \<and> fst (process_streamlines_with_method flag_probe
        [[(0, 0, 0)], [(1, 0, 0)], [(2, 0, 0)], [(3, 0, 0)], [(4, 0, 0)], [(5, 0, 0)], [(6, 0, 0)]]
        1 ''hermite'' 2 False Map.empty)
       = Inr [[(0, 0, 0)], [(1, 0, 0)], [(2, 0, 0)], [(3, 0, 0)], [(4, 0, 0)]]
   \<and> environ (snd (process_streamlines_with_method flag_probe
        [[(0, 0, 0)], [(1, 0, 0)], [(2, 0, 0)], [(3, 0, 0)], [(4, 0, 0)], [(5, 0, 0)], [(6, 0, 0)]]
        1 ''hermite'' 2 False Map.empty)) ''DEBUG_TANGENTS'' = Some ''0''
   \<and> flags_at_calls None
        (trace (snd (process_streamlines_with_method flag_probe
           [[(0, 0, 0)], [(1, 0, 0)], [(2, 0, 0)], [(3, 0, 0)], [(4, 0, 0)], [(5, 0, 0)], [(6, 0, 0)]]
           1 ''hermite'' 2 False Map.empty)))
       = [Some ''1'', Some ''1'', Some ''1'', Some ''1'', Some ''1'', Some ''0'', Some ''0'']
   \<and> fst (densify_streamline_subvoxel (Map.empty(''DEBUG_TANGENTS'' \<mapsto> ''1''))
          [(0, 0, 0), (1, 0, 0)] 1 False ''hermite'' 2)
       = fst (densify_streamline_subvoxel (Map.empty(''DEBUG_TANGENTS'' \<mapsto> ''0''))
          [(0, 0, 0), (1, 0, 0)] 1 False ''hermite'' 2)"
proof -
  have h: "\<forall>env s st g m v. flag_probe env s st g m v \<noteq> Inl Interrupt"
    by (simp add: flag_probe_def)
  note t = debug_flag_first_five [where d = flag_probe and env = Map.empty
        and streams = "[[(0, 0, 0)], [(1, 0, 0)], [(2, 0, 0)], [(3, 0, 0)], [(4, 0, 0)],
                        [(5, 0, 0)], [(6, 0, 0)]]"
        and step = 1 and meth = "''hermite''" and vs = 2 and gpu = False
        and e = Map.empty and s = "[(0, 0, 0), (1, 0, 0)]" and step' = 1 and g = False
        and m = "''hermite''" and v = 2, OF flag_probe_no_interrupt]
  have u: "map (\<lambda>i. Some (if i < 5 then ''1'' else ''0''))
             [0 ..< length [[(0 :: real, 0 :: real, 0 :: real)], [(1, 0, 0)], [(2, 0, 0)],
                            [(3, 0, 0)], [(4, 0, 0)], [(5, 0, 0)], [(6, 0, 0)]]]
         = [Some ''1'', Some ''1'', Some ''1'', Some ''1'', Some ''1'', Some ''0'', Some ''0'']"
    by (simp add: upt_rec)
  have w: "List.map_filter
             (\<lambda>(i, s). case flag_probe (Map.empty(''DEBUG_TANGENTS'' \<mapsto> (if i < 5 then ''1'' else ''0''))) s
                            (1 * 2) False ''hermite'' 2 of
                         Inr y \<Rightarrow> Some y | Inl e \<Rightarrow> None)
             (enumerate 0 [[(0 :: real, 0 :: real, 0 :: real)], [(1, 0, 0)], [(2, 0, 0)],
                            [(3, 0, 0)], [(4, 0, 0)], [(5, 0, 0)], [(6, 0, 0)]])
         = [[(0, 0, 0)], [(1, 0, 0)], [(2, 0, 0)], [(3, 0, 0)], [(4, 0, 0)]]"
    by (simp add: List.map_filter_simps flag_probe_def)
  show ?thesis using h t unfolding u w by simp
qed

section \<open>Properties of process_and_save\<close>

lemma call_rejected:
  "call_build_new_affine [Affine_value A, Shape_value os, Voxel_size_value vs, Shape_value ns]
     [(''patch_center_mm'', Center_value pc), (''use_gpu'', Bool_value g)] = Inl TypeError"
  by (simp add: call_build_new_affine_def bind_arguments_def build_new_affine_parameters_def)

lemma resamplings_append: "resamplings (xs @ ys) = resamplings xs + resamplings ys"
  by (induction xs rule: resamplings.induct) auto

lemma removes_after_save_append:
  "removes_after_save s (xs @ ys)
     = (removes_after_save s xs \<and> removes_after_save (s \<or> volume_saved xs) ys)"
  by (induction s xs rule: removes_after_save.induct) auto

lemma trk_saves_append: "trk_saves (xs @ ys) = trk_saves xs @ trk_saves ys"
  by (induction xs rule: trk_saves.induct) auto

lemma processed_counts_append:
  "processed_counts (xs @ ys) = processed_counts xs @ processed_counts ys"
  by (induction xs rule: processed_counts.induct) auto

lemma removals_append: "removals (xs @ ys) = removals xs @ removals ys"
  by (induction xs rule: removals.induct) auto

lemma volume_saved_append: "volume_saved (xs @ ys) = (volume_saved xs \<or> volume_saved ys)"
  by (induction xs rule: volume_saved.induct) auto

lemma no_removals: "removals xs = [] \<Longrightarrow> removes_after_save s xs"
  by (induction s xs rule: removes_after_save.induct) auto

lemma reduction_trace:
  "\<exists>new. snd (reduction ext gpu red data nd tr) = tr @ new
     \<and> removals new = [] \<and> \<not> volume_saved new \<and> trk_saves new = [] \<and> processed_counts new = []"
  by (simp add: reduction_def then_do_def perform_def say_def Let_def
      split: sum.splits option.splits list.splits)

lemma streamline_stage_trace:
  "\<exists>new. snd (streamline_stage ext trk A nd pre jobs gpu interp step tr) = tr @ new
     \<and> removals new = []
     \<and> (0 \<in> set (processed_counts new) \<longrightarrow>
          fst (streamline_stage ext trk A nd pre jobs gpu interp step tr) = Inr ()
          \<and> last new = No_streamlines_warning \<and> trk_saves new = [])"
  by (simp add: streamline_stage_def then_do_def perform_def say_def Let_def
      split: sum.splits)

lemma resample_stage_trace:
  "\<exists>new. snd (resample_stage ext img A nd jobs gpu gb tr) = tr @ new
     \<and> removals new = [] \<and> \<not> volume_saved new \<and> trk_saves new = [] \<and> processed_counts new = []"
  by (simp add: resample_stage_def then_do_def perform_def say_def Let_def
      split: sum.splits prod.splits)

lemma save_always_raisesD:
  "save_always_raises ext \<Longrightarrow> \<exists>e. nib_save ext v A p = Inl e"
proof (cases "nib_save ext v A p")
  case (Inl e)
  then show ?thesis by blast
next
  case (Inr u)
  assume "save_always_raises ext"
  then have "nib_save ext v A p \<noteq> Inr ()"
    unfolding save_always_raises_def by blast
  with Inr show ?thesis by simp
qed

lemma save_volume_trace:
  "\<exists>new. snd (save_volume ext data tmp A pre gpu tr) = tr @ new
     \<and> removes_after_save False new \<and> trk_saves new = [] \<and> processed_counts new = []"
  by (simp add: save_volume_def then_do_def perform_def remove_scratch_def say_def Let_def
      split: sum.splits)

lemma save_volume_no_removal:
  assumes "save_always_raises ext"
  shows "removals (snd (save_volume ext data tmp A pre gpu tr)) = removals tr"
proof (cases gpu)
  case True
  show ?thesis
  proof (cases "asnumpy ext data")
    case (Inl e)
    then show ?thesis using True
      by (simp add: save_volume_def then_do_def perform_def removals_append)
  next
    case (Inr v)
    obtain e where "nib_save ext v A (pre @ ''.nii.gz'') = Inl e"
      using save_always_raisesD [OF assms] by blast
    then show ?thesis using True Inr
      by (simp add: save_volume_def then_do_def perform_def say_def removals_append)
  qed
next
  case False
  obtain e where "nib_save ext data A (pre @ ''.nii.gz'') = Inl e"
    using save_always_raisesD [OF assms] by blast
  then show ?thesis using False
    by (simp add: save_volume_def then_do_def perform_def say_def removals_append)
qed

lemma volume_stage_trace:
  "\<exists>new. snd (volume_stage ext img A nd pre jobs red gpu gb tr) = tr @ new
     \<and> removes_after_save False new \<and> trk_saves new = [] \<and> processed_counts new = []
     \<and> (save_always_raises ext \<longrightarrow> removals new = [])"
proof -
  obtain r1 t1 where p1: "resample_stage ext img A nd jobs gpu gb tr = (r1, t1)"
    by (cases "resample_stage ext img A nd jobs gpu gb tr") auto
  obtain n1 where n1: "t1 = tr @ n1" "removals n1 = []" "\<not> volume_saved n1"
      "trk_saves n1 = []" "processed_counts n1 = []"
    using resample_stage_trace [of ext img A nd jobs gpu gb tr] p1 by auto
  have g1: "removes_after_save False n1" by (rule no_removals [OF n1(2)])
  show ?thesis
  proof (cases r1)
    case (Inl e)
    then have "snd (volume_stage ext img A nd pre jobs red gpu gb tr) = t1"
      by (simp add: volume_stage_def then_do_def p1)
    then have "snd (volume_stage ext img A nd pre jobs red gpu gb tr) = tr @ n1"
      by (simp add: n1(1))
    then show ?thesis using g1 n1 by blast
  next
    case (Inr dt)
    obtain data tmp where dt: "dt = (data, tmp)" by (cases dt) auto
    obtain r2 t2 where p2: "reduction ext gpu red data nd t1 = (r2, t2)"
      by (cases "reduction ext gpu red data nd t1") auto
    obtain n2 where n2: "t2 = t1 @ n2" "removals n2 = []" "\<not> volume_saved n2"
        "trk_saves n2 = []" "processed_counts n2 = []"
      using reduction_trace [of ext gpu red data nd t1] p2 by auto
    have g2: "removes_after_save False (n1 @ n2)"
      by (rule no_removals) (simp add: removals_append n1(2) n2(2))
    show ?thesis
    proof (cases r2)
      case (Inl e)
      then have "snd (volume_stage ext img A nd pre jobs red gpu gb tr) = t2"
        using Inr dt by (simp add: volume_stage_def then_do_def p1 p2)
      then have "snd (volume_stage ext img A nd pre jobs red gpu gb tr) = tr @ (n1 @ n2)"
        by (simp add: n1(1) n2(1))
      moreover have "trk_saves (n1 @ n2) = []" "processed_counts (n1 @ n2) = []"
        by (simp_all add: trk_saves_append processed_counts_append n1 n2)
      moreover have "removals (n1 @ n2) = []"
        by (simp add: removals_append n1(2) n2(2))
      ultimately show ?thesis using g2 by blast
    next
      case r2: (Inr dn)
      obtain data' nd' where dn: "dn = (data', nd')" by (cases dn) auto
      obtain r3 t3 where p3: "save_volume ext data' tmp A pre gpu t2 = (r3, t3)"
        by (cases "save_volume ext data' tmp A pre gpu t2") auto
      obtain n3 where n3: "t3 = t2 @ n3" "removes_after_save False n3"
          "trk_saves n3 = []" "processed_counts n3 = []"
        using save_volume_trace [of ext data' tmp A pre gpu t2] p3 by auto
      have n3r: "save_always_raises ext \<longrightarrow> removals n3 = []"
        using save_volume_no_removal [of ext data' tmp A pre gpu t2] p3 n3(1)
        by (simp add: removals_append)
      have "snd (volume_stage ext img A nd pre jobs red gpu gb tr) = t3"
        using Inr dt r2 dn
        by (cases r3) (simp_all add: volume_stage_def then_do_def p1 p2 p3)
      then have "snd (volume_stage ext img A nd pre jobs red gpu gb tr) = tr @ (n1 @ n2 @ n3)"
        by (simp add: n1(1) n2(1) n3(1))
      moreover have "removes_after_save False (n1 @ n2 @ n3)"
        using g1 n3(2) n1(3) n2(2,3)
        by (simp add: removes_after_save_append no_removals volume_saved_append)
      moreover have "trk_saves (n1 @ n2 @ n3) = []" "processed_counts (n1 @ n2 @ n3) = []"
        by (simp_all add: trk_saves_append processed_counts_append n1 n2 n3)
      moreover have "save_always_raises ext \<longrightarrow> removals (n1 @ n2 @ n3) = []"
        using n3r by (simp add: removals_append n1(2) n2(2))
      ultimately show ?thesis by blast
    qed
  qed
qed

text \<open>
  C2. No run of process_and_save returns: every run ends in an exception, and no run
  reaches the call of resample_nifti. When the import of the GPU libraries raises nothing
  but ImportError and the image loads, the exception is the TypeError of the call of
  build_new_affine, whose parameters do not include \<open>use_gpu\<close>, and that call is the
  last thing the run does.
\<close>

theorem process_and_save_never_completes:
  "fst (process_and_save ext old_nifti_path old_trk_path new_voxel_size new_dim output_prefix
          n_jobs patch_center reduction_method use_gpu interp_method step_size max_output_gb) \<noteq> Inr ()
   \<and> resamplings (snd (process_and_save ext old_nifti_path old_trk_path new_voxel_size new_dim
          output_prefix n_jobs patch_center reduction_method use_gpu interp_method step_size
          max_output_gb)) = 0
   \<and> ((\<forall>e. import_gpu ext \<noteq> Import_raised e) \<and> (\<exists>img. nib_load ext old_nifti_path = Inr img)
        \<longrightarrow> fst (process_and_save ext old_nifti_path old_trk_path new_voxel_size new_dim
                  output_prefix n_jobs patch_center reduction_method use_gpu interp_method step_size
                  max_output_gb) = Inl TypeError
          \<and> last (snd (process_and_save ext old_nifti_path old_trk_path new_voxel_size new_dim
                  output_prefix n_jobs patch_center reduction_method use_gpu interp_method step_size
                  max_output_gb)) = Call Build_new_affine)"
  by (auto simp add: process_and_save_def then_do_def select_backend_def perform_def say_def
      call_rejected Let_def resamplings_append split: import_outcome.splits sum.splits)

theorem process_and_save_never_completes_witness:
  "(\<forall>e. import_gpu quiet \<noteq> Import_raised e)
   \<and> (\<exists>img. nib_load quiet ''in.nii'' = Inr img)
   \<and> fst (process_and_save quiet ''in.nii'' ''in.trk'' (Scalar (1 / 2)) [8, 12, 16] ''out'' 8 None None
        True ''hermite'' (1 / 2) 64) = Inl TypeError
   \<and> last (snd (process_and_save quiet ''in.nii'' ''in.trk'' (Scalar (1 / 2)) [8, 12, 16] ''out'' 8 None None
        True ''hermite'' (1 / 2) 64)) = Call Build_new_affine"
proof -
  have h1: "\<forall>e. import_gpu quiet \<noteq> Import_raised e" by (simp add: quiet_def)
  have h2: "\<exists>img. nib_load quiet ''in.nii'' = Inr img" by (simp add: quiet_def)
  note t = process_and_save_never_completes [of quiet "''in.nii''" "''in.trk''"
        "Scalar (1 / 2)" "[8, 12, 16]" "''out''" 8 None None True "''hermite''" "1 / 2" 64,
        THEN conjunct2, THEN conjunct2]
  note cd = mp [OF t conjI [OF h1 h2]]
  show ?thesis
    by (intro conjI h1 h2 cd [THEN conjunct1] cd [THEN conjunct2])
qed


lemma from_affine_after_volume:
  assumes "volume_stage ext img A nd pre jobs red gpu gb [] = (Inr nd', t1)"
  shows "process_and_save_from_affine ext img A trk nd pre jobs red gpu interp step gb []
     = streamline_stage ext trk A nd' pre jobs gpu interp step t1"
  using assms by (simp add: process_and_save_from_affine_def then_do_def)

lemma from_affine_volume_failed:
  assumes "volume_stage ext img A nd pre jobs red gpu gb [] = (Inl e, t1)"
  shows "process_and_save_from_affine ext img A trk nd pre jobs red gpu interp step gb []
     = (Inl e, t1)"
  using assms by (simp add: process_and_save_from_affine_def then_do_def)



text \<open>
  C9. In every run of process_and_save, and in every run of its body from the point where
  the new affine is bound, each call that removes a file comes after the call that saves
  the resampled volume has returned. When saving the volume raises whatever it is given,
  the body removes no file.
\<close>

theorem scratch_removed_after_save:
  "removes_after_save False (snd (process_and_save ext old_nifti_path old_trk_path new_voxel_size
      new_dim output_prefix n_jobs patch_center reduction_method use_gpu interp_method step_size
      max_output_gb))
   \<and> removes_after_save False (snd (process_and_save_from_affine ext old_img A_new old_trk_path
        new_dim output_prefix n_jobs reduction_method use_gpu interp_method step_size
        max_output_gb []))
   \<and> (save_always_raises ext \<longrightarrow> removals (snd (process_and_save_from_affine ext old_img A_new old_trk_path
        new_dim output_prefix n_jobs reduction_method use_gpu interp_method step_size
        max_output_gb [])) = [])"
proof (intro conjI)
  show "removes_after_save False (snd (process_and_save ext old_nifti_path old_trk_path new_voxel_size
      new_dim output_prefix n_jobs patch_center reduction_method use_gpu interp_method step_size
      max_output_gb))"
    by (auto simp add: process_and_save_def then_do_def select_backend_def perform_def say_def
      call_rejected Let_def split: import_outcome.splits sum.splits)
next
  obtain r t1 where p: "volume_stage ext old_img A_new new_dim output_prefix n_jobs reduction_method use_gpu
        max_output_gb [] = (r, t1)"
    by (cases "volume_stage ext old_img A_new new_dim output_prefix n_jobs reduction_method use_gpu
        max_output_gb []") auto
  have v: "removes_after_save False t1" "save_always_raises ext \<longrightarrow> removals t1 = []"
    using volume_stage_trace [of ext old_img A_new new_dim output_prefix n_jobs reduction_method
        use_gpu max_output_gb "[]"] p by auto
  have both: "removes_after_save False (snd (process_and_save_from_affine ext old_img A_new old_trk_path
        new_dim output_prefix n_jobs reduction_method use_gpu interp_method step_size
        max_output_gb []))
      \<and> (save_always_raises ext \<longrightarrow> removals (snd (process_and_save_from_affine ext old_img A_new old_trk_path
        new_dim output_prefix n_jobs reduction_method use_gpu interp_method step_size
        max_output_gb [])) = [])"
  proof (cases r)
    case (Inl e)
    show ?thesis using v by (simp add: from_affine_volume_failed [OF p [unfolded Inl]])
  next
    case (Inr d)
    obtain new where s:
      "snd (streamline_stage ext old_trk_path A_new d output_prefix n_jobs use_gpu
              interp_method step_size t1) = t1 @ new"
      "removals new = []"
      using streamline_stage_trace [of ext old_trk_path A_new d output_prefix n_jobs use_gpu
          interp_method step_size t1] by blast
    show ?thesis using v s
      by (simp add: from_affine_after_volume [OF p [unfolded Inr]] removes_after_save_append
          no_removals removals_append)
  qed
  show "removes_after_save False (snd (process_and_save_from_affine ext old_img A_new old_trk_path
        new_dim output_prefix n_jobs reduction_method use_gpu interp_method step_size
        max_output_gb []))"
    using both by blast
  show "save_always_raises ext \<longrightarrow> removals (snd (process_and_save_from_affine ext old_img A_new old_trk_path
        new_dim output_prefix n_jobs reduction_method use_gpu interp_method step_size
        max_output_gb [])) = []"
    using both by blast
qed

theorem scratch_removed_after_save_witness:
  "save_always_raises full_disk
   \<and> removals (snd (process_and_save_from_affine full_disk
        \<lparr>img_affine = ((2, 0, 0, 10), (0, 2, 0, 20), (0, 0, 2, 30), (0, 0, 0, 1)),
         img_shape = [4, 6, 8], img_zooms = [2, 2, 2]\<rparr>
        ((1, 0, 0, 19 / 2), (0, 1, 0, 39 / 2), (0, 0, 1, 59 / 2), (0, 0, 0, 1))
        ''in.trk'' [8, 12, 16] ''out'' 8 None False ''hermite'' (1 / 2) 64 [])) = []
   \<and> removes_after_save False (snd (process_and_save_from_affine quiet
        \<lparr>img_affine = ((2, 0, 0, 10), (0, 2, 0, 20), (0, 0, 2, 30), (0, 0, 0, 1)),
         img_shape = [4, 6, 8], img_zooms = [2, 2, 2]\<rparr>
        ((1, 0, 0, 19 / 2), (0, 1, 0, 39 / 2), (0, 0, 1, 59 / 2), (0, 0, 0, 1))
        ''in.trk'' [8, 12, 16] ''out'' 8 None False ''hermite'' (1 / 2) 64 []))
   \<and> removals (snd (process_and_save_from_affine quiet
        \<lparr>img_affine = ((2, 0, 0, 10), (0, 2, 0, 20), (0, 0, 2, 30), (0, 0, 0, 1)),
         img_shape = [4, 6, 8], img_zooms = [2, 2, 2]\<rparr>
        ((1, 0, 0, 19 / 2), (0, 1, 0, 39 / 2), (0, 0, 1, 59 / 2), (0, 0, 0, 1))
        ''in.trk'' [8, 12, 16] ''out'' 8 None False ''hermite'' (1 / 2) 64 [])) = [''scratch.mmap'']"
proof -
  have h: "save_always_raises full_disk"
    by (simp add: save_always_raises_def full_disk_def quiet_def)
  have e: "removals (snd (process_and_save_from_affine quiet
        \<lparr>img_affine = ((2, 0, 0, 10), (0, 2, 0, 20), (0, 0, 2, 30), (0, 0, 0, 1)),
         img_shape = [4, 6, 8], img_zooms = [2, 2, 2]\<rparr>
        ((1, 0, 0, 19 / 2), (0, 1, 0, 39 / 2), (0, 0, 1, 59 / 2), (0, 0, 0, 1))
        ''in.trk'' [8, 12, 16] ''out'' 8 None False ''hermite'' (1 / 2) 64 [])) = [''scratch.mmap'']"
    by (simp add: process_and_save_from_affine_def volume_stage_def resample_stage_def
        save_volume_def streamline_stage_def then_do_def perform_def reduction_def
        remove_scratch_def say_def quiet_def full_disk_def Let_def)
  note t1 = scratch_removed_after_save [where ext = full_disk
        and old_img = "\<lparr>img_affine = ((2, 0, 0, 10), (0, 2, 0, 20), (0, 0, 2, 30), (0, 0, 0, 1)),
         img_shape = [4, 6, 8], img_zooms = [2, 2, 2]\<rparr>"
        and A_new = "((1, 0, 0, 19 / 2), (0, 1, 0, 39 / 2), (0, 0, 1, 59 / 2), (0, 0, 0, 1))"
        and old_trk_path = "''in.trk''" and new_dim = "[8, 12, 16]" and output_prefix = "''out''"
        and n_jobs = 8 and reduction_method = None and use_gpu = False
        and interp_method = "''hermite''" and step_size = "1 / 2" and max_output_gb = 64,
        THEN conjunct2, THEN conjunct2]
  note t2 = scratch_removed_after_save [where ext = quiet
        and old_img = "\<lparr>img_affine = ((2, 0, 0, 10), (0, 2, 0, 20), (0, 0, 2, 30), (0, 0, 0, 1)),
         img_shape = [4, 6, 8], img_zooms = [2, 2, 2]\<rparr>"
        and A_new = "((1, 0, 0, 19 / 2), (0, 1, 0, 39 / 2), (0, 0, 1, 59 / 2), (0, 0, 0, 1))"
        and old_trk_path = "''in.trk''" and new_dim = "[8, 12, 16]" and output_prefix = "''out''"
        and n_jobs = 8 and reduction_method = None and use_gpu = False
        and interp_method = "''hermite''" and step_size = "1 / 2" and max_output_gb = 64,
        THEN conjunct2, THEN conjunct1]
  show ?thesis
    by (intro conjI h mp [OF t1 h] t2 e)
qed

end
